theory Spec2Isabelle
  imports Complex_Main
begin

section \<open>Python values and exceptions\<close>

text \<open>
  The exceptions the modelled code can raise. Every \<open>raise\<close> of the source is a value
  \<open>Inl e\<close> of a result type \<open>exn + 'a\<close>; a \<open>ValueError\<close> carries its message.
\<close>

datatype exn = ValueError string | AttributeError | IndexError | ZeroDivisionError

definition ebind :: "exn + 'a \<Rightarrow> ('a \<Rightarrow> exn + 'b) \<Rightarrow> exn + 'b" where
  "ebind m f = (case m of Inl e \<Rightarrow> Inl e | Inr x \<Rightarrow> f x)"

text \<open>
  An attribute value is a Python \<open>str\<close> or \<open>int\<close> (\<open>core_count\<close> is the only integer
  field). Python's \<open>==\<close> between a \<open>str\<close> and an \<open>int\<close> is false, as is the equality of
  the two constructors.
\<close>

datatype pyval = PyStr string | PyInt int

section \<open>String primitives\<close>

text \<open>
  Strings are ASCII text. \<open>str.lower\<close> maps \<open>A\<close>..\<open>Z\<close> to \<open>a\<close>..\<open>z\<close>; \<open>str.strip\<close>
  removes the characters for which \<open>str.isspace\<close> holds (tab, line feed, vertical tab,
  form feed, carriage return, the four separators 28..31 and the space) from both ends.
\<close>

definition lower_char :: "char \<Rightarrow> char" where
  "lower_char c =
     (let n = (of_char c :: nat) in if 65 \<le> n \<and> n \<le> 90 then char_of (n + 32) else c)"

definition lower :: "string \<Rightarrow> string" where
  "lower s = map lower_char s"

definition isspace :: "char \<Rightarrow> bool" where
  "isspace c =
     (let n = (of_char c :: nat) in (9 \<le> n \<and> n \<le> 13) \<or> (28 \<le> n \<and> n \<le> 31) \<or> n = 32)"

definition strip :: "string \<Rightarrow> string" where
  "strip s = rev (dropWhile isspace (rev (dropWhile isspace s)))"

text \<open>
  \<open>str.replace(old, new)\<close>: the occurrences of \<open>old\<close> are replaced from left to right
  without overlap. With an empty \<open>old\<close>, Python puts \<open>new\<close> before every character and
  at the end.
\<close>

function replace_from :: "string \<Rightarrow> string \<Rightarrow> string \<Rightarrow> string" where
  "replace_from old new [] = []"
| "replace_from old new (c # cs) =
     (if old \<noteq> [] \<and> take (length old) (c # cs) = old
      then new @ replace_from old new (drop (length old) (c # cs))
      else c # replace_from old new cs)"
  by pat_completeness auto
termination
  by (relation "measure (\<lambda>(old, new, s). length s)") (auto simp: neq_Nil_conv)

definition replace :: "string \<Rightarrow> string \<Rightarrow> string \<Rightarrow> string" where
  "replace s old new =
     (if old = [] then new @ concat (map (\<lambda>c. c # new) s) else replace_from old new s)"

text \<open>\<open>str(n)\<close> for a Python \<open>int\<close>: the decimal digits, with a minus sign when negative.\<close>

function str_nat :: "nat \<Rightarrow> string" where
  "str_nat n = (if n < 10 then [char_of (48 + n)] else str_nat (n div 10) @ [char_of (48 + n mod 10)])"
  by pat_completeness auto
termination
  by (relation "measure id") auto

definition str_int :: "int \<Rightarrow> string" where
  "str_int i = (if i < 0 then CHR ''-'' # str_nat (nat (- i)) else str_nat (nat i))"

definition str_of :: "pyval \<Rightarrow> string" where
  "str_of v = (case v of PyStr s \<Rightarrow> s | PyInt i \<Rightarrow> str_int i)"

section \<open>Configuration (config.py)\<close>

definition MINIMUM_MATCH_THRESHOLD :: rat where
  "MINIMUM_MATCH_THRESHOLD = 60"

text \<open>
  A \<open>dict\<close> is an association list in insertion order; a lookup is \<open>map_of\<close>. Weights are
  Python floats, modelled as exact rationals: sums, products and comparisons are those of
  \<open>\<rat>\<close>, without the rounding of binary floating point.
\<close>

definition ATTRIBUTE_WEIGHTS :: "(string \<times> rat) list" where
  "ATTRIBUTE_WEIGHTS =
     [(''voltage'', 25 / 100),
      (''conductor_material'', 20 / 100),
      (''cross_section'', 15 / 100),
      (''core_count'', 15 / 100),
      (''insulation'', 10 / 100),
      (''armouring'', 10 / 100),
      (''sheathing'', 5 / 100)]"

text \<open>
  The synonym table, in the order of the source. The source's literal lists the key
  \<open>pvc\<close> twice, both times with the value \<open>pvc\<close>.
\<close>

definition NORMALIZED_VALUES :: "(string \<times> string) list" where
  "NORMALIZED_VALUES =
     [(''aluminum'', ''al''),
      (''aluminium'', ''al''),
      (''al'', ''al''),
      (''copper'', ''cu''),
      (''cu'', ''cu''),
      (''xlpe'', ''xlpe''),
      (''cross linked polyethylene'', ''xlpe''),
      (''pvc'', ''pvc''),
      (''polyvinyl chloride'', ''pvc''),
      (''epr'', ''epr''),
      (''ethylene propylene rubber'', ''epr''),
      (''gi strip'', ''gi_strip''),
      (''galvanized iron strip'', ''gi_strip''),
      (''galvanised iron strip'', ''gi_strip''),
      (''gi wire'', ''gi_wire''),
      (''galvanized iron wire'', ''gi_wire''),
      (''galvanised iron wire'', ''gi_wire''),
      (''steel wire'', ''swa''),
      (''swa'', ''swa''),
      (''steel wire armoured'', ''swa''),
      (''steel wire armour'', ''swa''),
      (''unarmoured'', ''unarmoured''),
      (''none'', ''unarmoured''),
      (''pvc'', ''pvc''),
      (''pe'', ''pe''),
      (''polyethylene'', ''pe''),
      (''lszh'', ''lszh''),
      (''low smoke zero halogen'', ''lszh'')]"

section \<open>Value normalization (utils/attribute_utils.py)\<close>

definition normalize_value :: "string \<Rightarrow> string \<Rightarrow> string" where
  "normalize_value v value_type =
     (if v = [] then []
      else
        let normalized = strip (lower v) in
        (case map_of NORMALIZED_VALUES normalized of
           Some canonical \<Rightarrow> canonical
         | None \<Rightarrow> normalized))"

section \<open>Data models (models.py)\<close>

datatype MatchStatus = EXACT_MATCH | CLOSE_MATCH | PARTIAL_MATCH | NO_MATCH

record ExtractedAttributes =
  voltage :: "string option"
  conductor_material :: "string option"
  cross_section :: "string option"
  core_count :: "int option"
  insulation :: "string option"
  armouring :: "string option"
  sheathing :: "string option"

text \<open>\<open>to_normalized_dict\<close>: the fields in declaration order, those that are \<open>None\<close> left out.\<close>

definition to_normalized_dict :: "ExtractedAttributes \<Rightarrow> (string \<times> pyval) list" where
  "to_normalized_dict a =
     List.map_filter (\<lambda>(k, v). map_option (Pair k) v)
       [(''voltage'', map_option PyStr (voltage a)),
        (''conductor_material'', map_option PyStr (conductor_material a)),
        (''cross_section'', map_option PyStr (cross_section a)),
        (''core_count'', map_option PyInt (core_count a)),
        (''insulation'', map_option PyStr (insulation a)),
        (''armouring'', map_option PyStr (armouring a)),
        (''sheathing'', map_option PyStr (sheathing a))]"

record RFPItem =
  item_id :: int
  rfp_spec_raw :: string
  quantity :: "string option"
  unit :: "string option"
  extracted_attributes :: ExtractedAttributes

record OEMProduct =
  sku_id :: string
  product_name :: string
  datasheet_text :: string
  specs :: ExtractedAttributes
  category :: "string option"

record SpecMatchResult =
  res_sku_id :: string
  res_product_name :: string
  match_score :: rat
  match_status :: MatchStatus
  matched_attributes :: "string list"
  mismatched_attributes :: "string list"
  missing_attributes :: "string list"
  deviation_notes :: "string list"

section \<open>Python floats read from text\<close>

text \<open>
  \<open>float(s)\<close> yields a finite number, an infinity or a NaN, or raises \<open>ValueError\<close>
  (\<open>None\<close> here). A finite value is the exact rational the literal denotes. The accepted
  texts are those of Python's grammar: surrounding whitespace, an optional sign, then
  \<open>inf\<close>, \<open>infinity\<close> or \<open>nan\<close> in any case, or a decimal number with an optional
  fraction and an optional exponent, where single underscores may separate digits.
\<close>

datatype pyfloat = Finite rat | PInf | NInf | NaN

definition is_digit :: "char \<Rightarrow> bool" where
  "is_digit c = (let n = (of_char c :: nat) in 48 \<le> n \<and> n \<le> 57)"

fun digitpart :: "string \<Rightarrow> bool" where
  "digitpart [] = False"
| "digitpart [c] = is_digit c"
| "digitpart (c # d # cs) =
     (is_digit c \<and> (if d = CHR ''_'' then digitpart cs else digitpart (d # cs)))"

definition digits_value :: "string \<Rightarrow> nat" where
  "digits_value s = foldl (\<lambda>acc c. 10 * acc + (of_char c - 48)) 0 (filter is_digit s)"

definition parse_mantissa :: "string \<Rightarrow> rat option" where
  "parse_mantissa m =
     (let ip = takeWhile (\<lambda>c. c \<noteq> CHR ''.'') m;
          rest = dropWhile (\<lambda>c. c \<noteq> CHR ''.'') m
      in if rest = [] then (if digitpart ip then Some (of_nat (digits_value ip)) else None)
         else
           let fp = tl rest in
           if (ip = [] \<or> digitpart ip) \<and> (fp = [] \<or> digitpart fp) \<and> \<not> (ip = [] \<and> fp = [])
           then Some (of_nat (digits_value (ip @ fp)) / 10 ^ length (filter is_digit fp))
           else None)"

definition parse_exponent :: "string \<Rightarrow> int option" where
  "parse_exponent e =
     (case e of
        c # cs \<Rightarrow>
          if c = CHR ''-'' then (if digitpart cs then Some (- int (digits_value cs)) else None)
          else if c = CHR ''+'' then (if digitpart cs then Some (int (digits_value cs)) else None)
          else if digitpart e then Some (int (digits_value e)) else None
      | [] \<Rightarrow> None)"

definition parse_number :: "string \<Rightarrow> rat option" where
  "parse_number body =
     (let m = takeWhile (\<lambda>c. c \<noteq> CHR ''e'' \<and> c \<noteq> CHR ''E'') body;
          rest = dropWhile (\<lambda>c. c \<noteq> CHR ''e'' \<and> c \<noteq> CHR ''E'') body
      in case parse_mantissa m of
           None \<Rightarrow> None
         | Some q \<Rightarrow>
             if rest = [] then Some q
             else (case parse_exponent (tl rest) of
                     None \<Rightarrow> None
                   | Some x \<Rightarrow> Some (if 0 \<le> x then q * 10 ^ nat x else q / 10 ^ nat (- x))))"

definition py_float :: "string \<Rightarrow> pyfloat option" where
  "py_float s =
     (let t = strip s;
          neg = (t \<noteq> [] \<and> hd t = CHR ''-'');
          body = (if t \<noteq> [] \<and> (hd t = CHR ''-'' \<or> hd t = CHR ''+'') then tl t else t)
      in if lower body = ''inf'' \<or> lower body = ''infinity'' then Some (if neg then NInf else PInf)
         else if lower body = ''nan'' then Some NaN
         else map_option (\<lambda>q. Finite (if neg then - q else q)) (parse_number body))"

text \<open>Subtraction, absolute value and comparison follow IEEE 754 on the special values.\<close>

fun fsub :: "pyfloat \<Rightarrow> pyfloat \<Rightarrow> pyfloat" where
  "fsub (Finite x) (Finite y) = Finite (x - y)"
| "fsub NaN _ = NaN"
| "fsub _ NaN = NaN"
| "fsub PInf PInf = NaN"
| "fsub NInf NInf = NaN"
| "fsub PInf _ = PInf"
| "fsub NInf _ = NInf"
| "fsub (Finite x) PInf = NInf"
| "fsub (Finite x) NInf = PInf"

fun fabs :: "pyfloat \<Rightarrow> pyfloat" where
  "fabs (Finite x) = Finite \<bar>x\<bar>"
| "fabs PInf = PInf"
| "fabs NInf = PInf"
| "fabs NaN = NaN"

fun flt :: "pyfloat \<Rightarrow> pyfloat \<Rightarrow> bool" where
  "flt (Finite x) (Finite y) = (x < y)"
| "flt NaN _ = False"
| "flt _ NaN = False"
| "flt _ NInf = False"
| "flt PInf _ = False"
| "flt NInf _ = True"
| "flt (Finite x) PInf = True"

definition fgt :: "pyfloat \<Rightarrow> pyfloat \<Rightarrow> bool" where
  "fgt a b = flt b a"

section \<open>The spec match engine (utils/match_engine.py)\<close>

record SpecMatchEngine =
  weights :: "(string \<times> rat) list"

text \<open>
  \<open>__init__\<close>: \<open>weights or ATTRIBUTE_WEIGHTS\<close> takes the defaults when no mapping is given
  and also when the mapping given is empty (an empty \<open>dict\<close> is falsy). The message of the
  error is kept without the formatted total.
\<close>

definition init :: "(string \<times> rat) list option \<Rightarrow> exn + SpecMatchEngine" where
  "init ws =
     (let w = (case ws of None \<Rightarrow> ATTRIBUTE_WEIGHTS
                        | Some d \<Rightarrow> if d = [] then ATTRIBUTE_WEIGHTS else d);
          total_weight = sum_list (map snd w)
      in if \<bar>total_weight - 1\<bar> > 1 / 100
         then Inl (ValueError ''Weights must sum to 1.0'')
         else Inr \<lparr>weights = w\<rparr>)"

text \<open>
  The method \<open>replace\<close> exists on \<open>str\<close> only: on an \<open>int\<close> the attribute lookup raises
  \<open>AttributeError\<close>. \<open>float\<close> raises \<open>ValueError\<close> on a text it cannot read.
\<close>

definition method_replace :: "pyval \<Rightarrow> string \<Rightarrow> string \<Rightarrow> exn + pyval" where
  "method_replace v old new =
     (case v of PyStr s \<Rightarrow> Inr (PyStr (replace s old new)) | PyInt i \<Rightarrow> Inl AttributeError)"

definition float_of :: "pyval \<Rightarrow> exn + pyfloat" where
  "float_of v =
     (case v of
        PyStr s \<Rightarrow> (case py_float s of
                    None \<Rightarrow> Inl (ValueError ''could not convert string to float'')
                  | Some f \<Rightarrow> Inr f)
      | PyInt i \<Rightarrow> Inr (Finite (of_int i)))"

text \<open>The body of the \<open>try\<close> block of \<open>_compare_voltage\<close>, then the handler around it.\<close>

definition compare_voltage_try :: "pyval \<Rightarrow> pyval \<Rightarrow> exn + rat" where
  "compare_voltage_try rfp_voltage oem_voltage =
     ebind (method_replace rfp_voltage ''kv'' '''') (\<lambda>r1.
     ebind (method_replace r1 ''v'' '''') (\<lambda>r2.
     ebind (float_of r2) (\<lambda>rfp_num.
     ebind (method_replace oem_voltage ''kv'' '''') (\<lambda>o1.
     ebind (method_replace o1 ''v'' '''') (\<lambda>o2.
     ebind (float_of o2) (\<lambda>oem_num.
       if flt (fabs (fsub rfp_num oem_num)) (Finite (1 / 10)) then Inr 1
       else if fgt oem_num rfp_num then Inr (8 / 10)
       else Inr 0))))))"

definition compare_voltage :: "pyval \<Rightarrow> pyval \<Rightarrow> exn + rat" where
  "compare_voltage rfp_voltage oem_voltage =
     (case compare_voltage_try rfp_voltage oem_voltage of
        Inl (ValueError msg) \<Rightarrow> Inr 0
      | Inl AttributeError \<Rightarrow> Inr 0
      | Inl e \<Rightarrow> Inl e
      | Inr c \<Rightarrow> Inr c)"

definition compare_cross_section_try :: "pyval \<Rightarrow> pyval \<Rightarrow> exn + rat" where
  "compare_cross_section_try rfp_cs oem_cs =
     ebind (method_replace rfp_cs ''sqmm'' '''') (\<lambda>r1.
     ebind (float_of r1) (\<lambda>rfp_num.
     ebind (method_replace oem_cs ''sqmm'' '''') (\<lambda>o1.
     ebind (float_of o1) (\<lambda>oem_num.
       if flt (fabs (fsub rfp_num oem_num)) (Finite (1 / 10)) then Inr 1
       else if fgt oem_num rfp_num then Inr (9 / 10)
       else Inr 0))))"

definition compare_cross_section :: "pyval \<Rightarrow> pyval \<Rightarrow> exn + rat" where
  "compare_cross_section rfp_cs oem_cs =
     (case compare_cross_section_try rfp_cs oem_cs of
        Inl (ValueError msg) \<Rightarrow> Inr 0
      | Inl AttributeError \<Rightarrow> Inr 0
      | Inl e \<Rightarrow> Inl e
      | Inr c \<Rightarrow> Inr c)"

definition normalize_pyval :: "pyval \<Rightarrow> string \<Rightarrow> pyval" where
  "normalize_pyval v attr_name =
     (case v of PyStr s \<Rightarrow> PyStr (normalize_value s attr_name) | PyInt i \<Rightarrow> PyInt i)"

definition compare_attribute :: "string \<Rightarrow> pyval \<Rightarrow> pyval \<Rightarrow> exn + rat" where
  "compare_attribute attr_name rfp_value oem_value =
     (let rfp_normalized = normalize_pyval rfp_value attr_name;
          oem_normalized = normalize_pyval oem_value attr_name
      in if rfp_normalized = oem_normalized then Inr 1
         else if attr_name = ''voltage'' then compare_voltage rfp_normalized oem_normalized
         else if attr_name = ''cross_section''
           then compare_cross_section rfp_normalized oem_normalized
         else if attr_name = ''core_count''
           then Inr (if rfp_normalized = oem_normalized then 1 else 0)
         else Inr 0)"

text \<open>
  \<open>round(x, 2)\<close> on the exact value: the nearest multiple of one hundredth, a tie going to
  the even one.
\<close>

definition round2 :: "rat \<Rightarrow> rat" where
  "round2 x =
     (let y = x * 100; f = \<lfloor>y\<rfloor>; d = y - of_int f
      in of_int (if d < 1 / 2 then f
                 else if 1 / 2 < d then f + 1
                 else if even f then f else f + 1) / 100)"

text \<open>
  The loop of \<open>calculate_match_score\<close> over \<open>self.weights.items()\<close>. Its state is the
  running score and the three lists.
\<close>

type_synonym score_state = "rat \<times> string list \<times> string list \<times> string list"

definition score_step ::
  "(string \<times> pyval) list \<Rightarrow> (string \<times> pyval) list \<Rightarrow> string \<times> rat \<Rightarrow> score_state
     \<Rightarrow> exn + score_state" where
  "score_step rfp_dict oem_dict item st =
     (case (item, st) of ((attr_name, weight), (score, matched, mismatched, missing)) \<Rightarrow>
        (case map_of rfp_dict attr_name of
           None \<Rightarrow> Inr (score + weight, matched, mismatched, missing)
         | Some rfp_value \<Rightarrow>
             (case map_of oem_dict attr_name of
                None \<Rightarrow> Inr (score, matched, mismatched, missing @ [attr_name])
              | Some oem_value \<Rightarrow>
                  ebind (compare_attribute attr_name rfp_value oem_value) (\<lambda>match_result.
                    if match_result = 1
                    then Inr (score + weight, matched @ [attr_name], mismatched, missing)
                    else if match_result > 0
                    then Inr (score + weight * match_result, matched,
                              mismatched @ [attr_name @ '' (partial)''], missing)
                    else Inr (score, matched, mismatched @ [attr_name], missing)))))"

fun score_loop ::
  "(string \<times> pyval) list \<Rightarrow> (string \<times> pyval) list \<Rightarrow> (string \<times> rat) list \<Rightarrow> score_state
     \<Rightarrow> exn + score_state" where
  "score_loop rfp_dict oem_dict [] st = Inr st"
| "score_loop rfp_dict oem_dict (item # items) st =
     ebind (score_step rfp_dict oem_dict item st) (score_loop rfp_dict oem_dict items)"

definition calculate_match_score ::
  "SpecMatchEngine \<Rightarrow> ExtractedAttributes \<Rightarrow> ExtractedAttributes \<Rightarrow> exn + score_state" where
  "calculate_match_score self rfp_attrs oem_attrs =
     (let rfp_dict = to_normalized_dict rfp_attrs;
          oem_dict = to_normalized_dict oem_attrs
      in ebind (score_loop rfp_dict oem_dict (weights self) (0, [], [], []))
           (\<lambda>(score, matched, mismatched, missing).
              Inr (round2 (score * 100), matched, mismatched, missing)))"

text \<open>
  \<open>_generate_deviation_notes\<close>: one note per mismatched attribute (the partial marker
  removed to look the values up), then one per missing attribute.
\<close>

definition get_or_na :: "(string \<times> pyval) list \<Rightarrow> string \<Rightarrow> string" where
  "get_or_na d k = (case map_of d k of None \<Rightarrow> ''N/A'' | Some v \<Rightarrow> str_of v)"

definition generate_deviation_notes ::
  "ExtractedAttributes \<Rightarrow> ExtractedAttributes \<Rightarrow> string list \<Rightarrow> string list \<Rightarrow> string list" where
  "generate_deviation_notes rfp_attrs oem_attrs mismatched missing =
     (let rfp_dict = to_normalized_dict rfp_attrs;
          oem_dict = to_normalized_dict oem_attrs
      in map (\<lambda>attr.
                let attr_clean = replace attr '' (partial)'' '''' in
                ''RFP requires '' @ attr_clean @ ''='' @ get_or_na rfp_dict attr_clean
                  @ '', OEM has '' @ get_or_na oem_dict attr_clean) mismatched
         @ map (\<lambda>attr.
                ''RFP requires '' @ attr @ ''='' @ get_or_na rfp_dict attr
                  @ '', OEM spec not available'') missing)"

text \<open>The status chosen in \<open>match_product\<close>, with the minimum threshold as its parameter.\<close>

definition classify :: "rat \<Rightarrow> rat \<Rightarrow> MatchStatus" where
  "classify threshold score =
     (if score \<ge> 95 then EXACT_MATCH
      else if score \<ge> 80 then CLOSE_MATCH
      else if score \<ge> threshold then PARTIAL_MATCH
      else NO_MATCH)"

definition match_product :: "SpecMatchEngine \<Rightarrow> RFPItem \<Rightarrow> OEMProduct \<Rightarrow> exn + SpecMatchResult" where
  "match_product self rfp_item oem_product =
     ebind (calculate_match_score self (extracted_attributes rfp_item) (specs oem_product))
       (\<lambda>(score, matched, mismatched, missing).
          Inr \<lparr>res_sku_id = sku_id oem_product,
               res_product_name = product_name oem_product,
               match_score = score,
               match_status = classify MINIMUM_MATCH_THRESHOLD score,
               matched_attributes = matched,
               mismatched_attributes = mismatched,
               missing_attributes = missing,
               deviation_notes =
                 generate_deviation_notes (extracted_attributes rfp_item) (specs oem_product)
                   mismatched missing\<rparr>)"

section \<open>Notions used to state the properties\<close>

text \<open>
  What one iteration of the scoring loop does with an attribute, read off the two
  dictionaries: the verdict on the attribute, the credit of the comparison (the value
  \<open>_compare_attribute\<close> returns) and the part of the weight that is added to the score.
\<close>

datatype verdict = Unspecified | Missing | Matched | Partial | Mismatched

definition credit :: "string \<Rightarrow> pyval \<Rightarrow> pyval \<Rightarrow> rat" where
  "credit n a b = (case compare_attribute n a b of Inr c \<Rightarrow> c | Inl e \<Rightarrow> 0)"

definition verdict_of :: "(string \<times> pyval) list \<Rightarrow> (string \<times> pyval) list \<Rightarrow> string \<Rightarrow> verdict" where
  "verdict_of rd od n =
     (case map_of rd n of
        None \<Rightarrow> Unspecified
      | Some rv \<Rightarrow>
          (case map_of od n of
             None \<Rightarrow> Missing
           | Some ov \<Rightarrow>
               if credit n rv ov = 1 then Matched
               else if credit n rv ov > 0 then Partial else Mismatched))"

definition awarded :: "(string \<times> pyval) list \<Rightarrow> (string \<times> pyval) list \<Rightarrow> string \<times> rat \<Rightarrow> rat" where
  "awarded rd od item =
     (case map_of rd (fst item) of
        None \<Rightarrow> snd item
      | Some rv \<Rightarrow>
          (case map_of od (fst item) of
             None \<Rightarrow> 0
           | Some ov \<Rightarrow> snd item * credit (fst item) rv ov))"

definition matched_of :: "(string \<times> pyval) list \<Rightarrow> (string \<times> pyval) list \<Rightarrow> (string \<times> rat) list \<Rightarrow> string list" where
  "matched_of rd od items = filter (\<lambda>n. verdict_of rd od n = Matched) (map fst items)"

definition missing_of :: "(string \<times> pyval) list \<Rightarrow> (string \<times> pyval) list \<Rightarrow> (string \<times> rat) list \<Rightarrow> string list" where
  "missing_of rd od items = filter (\<lambda>n. verdict_of rd od n = Missing) (map fst items)"

definition mismatched_label :: "(string \<times> pyval) list \<Rightarrow> (string \<times> pyval) list \<Rightarrow> string \<Rightarrow> string option" where
  "mismatched_label rd od n =
     (case verdict_of rd od n of
        Partial \<Rightarrow> Some (n @ '' (partial)'')
      | Mismatched \<Rightarrow> Some n
      | _ \<Rightarrow> None)"

definition mismatched_of :: "(string \<times> pyval) list \<Rightarrow> (string \<times> pyval) list \<Rightarrow> (string \<times> rat) list \<Rightarrow> string list" where
  "mismatched_of rd od items = List.map_filter (mismatched_label rd od) (map fst items)"

text \<open>
  \<open>ExtractedAttributes()\<close>, every field at its default \<open>None\<close>, and a fully specified
  record (the first item of the sample requests the repository ships).
\<close>

definition empty_attributes :: ExtractedAttributes where
  "empty_attributes =
     \<lparr>voltage = None, conductor_material = None, cross_section = None, core_count = None,
      insulation = None, armouring = None, sheathing = None\<rparr>"

definition sample_attributes :: ExtractedAttributes where
  "sample_attributes =
     \<lparr>voltage = Some ''11kv'', conductor_material = Some ''al'',
      cross_section = Some ''300sqmm'', core_count = Some 3, insulation = Some ''xlpe'',
      armouring = Some ''gi_strip'', sheathing = Some ''pvc''\<rparr>"

section \<open>The text embedder (utils/vector_db.py)\<close>

text \<open>
  The numbers of the embedder are Python and NumPy floats, modelled as real numbers: the
  logarithm, the square root and the divisions are the exact ones.

  What the code takes from outside this repository is a parameter of the model: the order
  in which Python iterates a \<open>set\<close> of words, the sorting permutation \<open>np.argsort\<close>
  returns, and the search of a FAISS flat index when the \<open>faiss\<close> module is installed
  (\<open>None\<close> when it is not).
\<close>

record runtime =
  set_iter :: "string list \<Rightarrow> string list"
  np_argsort :: "real list \<Rightarrow> nat list"
  faiss :: "(real list list \<Rightarrow> real list \<Rightarrow> int \<Rightarrow> int list) option"

definition EMBEDDING_DIMENSION :: nat where
  "EMBEDDING_DIMENSION = 384"

definition TOP_K_CANDIDATES :: int where
  "TOP_K_CANDIDATES = 5"

record SimpleEmbedder =
  dimension :: nat
  vocabulary :: "(string \<times> nat) list"
  idf :: "(string \<times> real) list"
  fitted :: bool

text \<open>\<open>SimpleEmbedder.__init__\<close>\<close>

definition SimpleEmbedder_init :: "nat \<Rightarrow> SimpleEmbedder" where
  "SimpleEmbedder_init d = \<lparr>dimension = d, vocabulary = [], idf = [], fitted = False\<rparr>"

text \<open>
  A \<open>dict\<close> keeps its keys in insertion order: storing under a key that is present
  replaces the value in place, storing under a new key appends.
\<close>

definition dict_get :: "('k \<times> 'v) list \<Rightarrow> 'k \<Rightarrow> 'v \<Rightarrow> 'v" where
  "dict_get d k dflt = (case map_of d k of None \<Rightarrow> dflt | Some v \<Rightarrow> v)"

fun dict_set :: "('k \<times> 'v) list \<Rightarrow> 'k \<Rightarrow> 'v \<Rightarrow> ('k \<times> 'v) list" where
  "dict_set [] k v = [(k, v)]"
| "dict_set (p # ps) k v = (if fst p = k then (k, v) # ps else p # dict_set ps k v)"

text \<open>
  \<open>_tokenize\<close>: \<open>re.findall(r'\b[a-z0-9]+\b', text.lower())\<close>. A word boundary stands
  only at the two ends of a maximal run of word characters (letters, digits and the
  underscore), so a match is a whole such run, and a run matches when all its characters
  are lower-case letters or digits. The text is ASCII.
\<close>

definition is_word_char :: "char \<Rightarrow> bool" where
  "is_word_char c =
     (let n = (of_char c :: nat)
      in (97 \<le> n \<and> n \<le> 122) \<or> (65 \<le> n \<and> n \<le> 90) \<or> (48 \<le> n \<and> n \<le> 57) \<or> n = 95)"

definition is_token_char :: "char \<Rightarrow> bool" where
  "is_token_char c =
     (let n = (of_char c :: nat) in (97 \<le> n \<and> n \<le> 122) \<or> (48 \<le> n \<and> n \<le> 57))"

fun word_runs :: "string \<Rightarrow> string \<Rightarrow> string list" where
  "word_runs cur [] = (if cur = [] then [] else [cur])"
| "word_runs cur (c # cs) =
     (if is_word_char c then word_runs (cur @ [c]) cs
      else (if cur = [] then [] else [cur]) @ word_runs [] cs)"

definition tokenize :: "string \<Rightarrow> string list" where
  "tokenize text = filter (list_all is_token_char) (word_runs [] (lower text))"

text \<open>
  \<open>fit\<close>. The document frequencies are counted text by text, each text's words taken in
  the order of its \<open>set\<close>; \<open>sorted(..., reverse=True)\<close> is stable, so words of equal
  frequency keep the order in which they were first counted.
\<close>

definition count_document :: "runtime \<Rightarrow> (string \<times> nat) list \<Rightarrow> string \<Rightarrow> (string \<times> nat) list" where
  "count_document rt doc_freq text =
     (let words = tokenize text;
          unique_words = set_iter rt words
      in foldl (\<lambda>df word. dict_set df word (dict_get df word 0 + 1)) doc_freq unique_words)"

definition document_frequencies :: "runtime \<Rightarrow> string list \<Rightarrow> (string \<times> nat) list" where
  "document_frequencies rt texts = foldl (count_document rt) [] texts"

definition top_words :: "nat \<Rightarrow> (string \<times> nat) list \<Rightarrow> (string \<times> nat) list" where
  "top_words d doc_freq = take d (sort_key (\<lambda>x. - int (snd x)) doc_freq)"

definition fit :: "runtime \<Rightarrow> SimpleEmbedder \<Rightarrow> string list \<Rightarrow> SimpleEmbedder" where
  "fit rt self texts =
     (let doc_freq = document_frequencies rt texts;
          top = top_words (dimension self) doc_freq;
          n_docs = length texts
      in self\<lparr>vocabulary := zip (map fst top) [0..<length top],
               idf := map (\<lambda>(word, df). (word, ln (real n_docs / (real df + 1)))) doc_freq,
               fitted := True\<rparr>)"

text \<open>
  \<open>embed\<close>. The quotient \<open>count / max_tf\<close> of two Python integers raises
  \<open>ZeroDivisionError\<close> on a zero divisor; an index outside the NumPy vector raises
  \<open>IndexError\<close>.
\<close>

definition term_counts :: "string list \<Rightarrow> (string \<times> nat) list" where
  "term_counts words = foldl (\<lambda>tf word. dict_set tf word (dict_get tf word 0 + 1)) [] words"

definition truediv :: "nat \<Rightarrow> nat \<Rightarrow> exn + real" where
  "truediv a b = (if b = 0 then Inl ZeroDivisionError else Inr (real a / real b))"

fun normalize_counts :: "nat \<Rightarrow> (string \<times> nat) list \<Rightarrow> exn + (string \<times> real) list" where
  "normalize_counts max_tf [] = Inr []"
| "normalize_counts max_tf ((word, count) # rest) =
     ebind (truediv count max_tf) (\<lambda>q.
     ebind (normalize_counts max_tf rest) (\<lambda>qs. Inr ((word, q) # qs)))"

fun build_vector :: "SimpleEmbedder \<Rightarrow> (string \<times> real) list \<Rightarrow> real list \<Rightarrow> exn + real list" where
  "build_vector self [] vec = Inr vec"
| "build_vector self ((word, word_tf) # rest) vec =
     (case map_of (vocabulary self) word of
        None \<Rightarrow> build_vector self rest vec
      | Some idx \<Rightarrow>
          if idx < length vec
          then build_vector self rest (vec[idx := word_tf * dict_get (idf self) word 0])
          else Inl IndexError)"

definition l2_norm :: "real list \<Rightarrow> real" where
  "l2_norm v = sqrt (sum_list (map (\<lambda>x. x * x) v))"

definition embed :: "SimpleEmbedder \<Rightarrow> string \<Rightarrow> exn + real list" where
  "embed self text =
     (if \<not> fitted self then Inl (ValueError ''Embedder must be fitted before embedding'')
      else
        let words = tokenize text;
            tf = term_counts words;
            max_tf = (if tf \<noteq> [] then Max (set (map snd tf)) else 1)
        in ebind (normalize_counts max_tf tf) (\<lambda>tf.
           ebind (build_vector self tf (replicate (dimension self) 0)) (\<lambda>vec.
             let norm = l2_norm vec
             in Inr (if norm > 0 then map (\<lambda>x. x / norm) vec else vec))))"

fun embed_batch :: "SimpleEmbedder \<Rightarrow> string list \<Rightarrow> exn + real list list" where
  "embed_batch self [] = Inr []"
| "embed_batch self (text # texts) =
     ebind (embed self text) (\<lambda>v.
     ebind (embed_batch self texts) (\<lambda>vs. Inr (v # vs)))"

section \<open>The vector database (utils/vector_db.py)\<close>

text \<open>
  \<open>index\<close> holds the vectors added to the FAISS index, \<open>embeddings\<close> the attribute the
  fallback branch sets; each is \<open>None\<close> until it is assigned.
\<close>

record VectorDatabase =
  db_path :: string
  embedder :: SimpleEmbedder
  index :: "real list list option"
  embeddings :: "real list list option"
  products :: "OEMProduct list"
  is_initialized :: bool

definition VectorDatabase_init :: "string \<Rightarrow> VectorDatabase" where
  "VectorDatabase_init path =
     \<lparr>db_path = path, embedder = SimpleEmbedder_init EMBEDDING_DIMENSION, index = None,
      embeddings = None, products = [], is_initialized = False\<rparr>"

definition initialize_from_products ::
  "runtime \<Rightarrow> VectorDatabase \<Rightarrow> OEMProduct list \<Rightarrow> exn + VectorDatabase" where
  "initialize_from_products rt self ps =
     (if ps = [] then Inl (ValueError ''No products provided to initialize database'')
      else
        let texts = map datasheet_text ps;
            emb = fit rt (embedder self) texts
        in ebind (embed_batch emb texts) (\<lambda>vectors.
             Inr (if faiss rt \<noteq> None
                  then self\<lparr>products := ps, embedder := emb, index := Some vectors,
                            is_initialized := True\<rparr>
                  else self\<lparr>products := ps, embedder := emb, embeddings := Some vectors,
                            is_initialized := True\<rparr>)))"

text \<open>
  Python list indexing and slicing: a negative index counts from the end, an index out of
  range raises \<open>IndexError\<close>; \<open>xs[:k]\<close> with a negative \<open>k\<close> drops the last \<open>-k\<close> items.
\<close>

definition py_index :: "'a list \<Rightarrow> int \<Rightarrow> exn + 'a" where
  "py_index xs i =
     (if 0 \<le> i \<and> i < int (length xs) then Inr (xs ! nat i)
      else if i < 0 \<and> - int (length xs) \<le> i then Inr (xs ! nat (int (length xs) + i))
      else Inl IndexError)"

fun index_all :: "'a list \<Rightarrow> int list \<Rightarrow> exn + 'a list" where
  "index_all xs [] = Inr []"
| "index_all xs (i # is) =
     ebind (py_index xs i) (\<lambda>x. ebind (index_all xs is) (\<lambda>rest. Inr (x # rest)))"

definition slice_to :: "int \<Rightarrow> 'a list \<Rightarrow> 'a list" where
  "slice_to k xs = (if 0 \<le> k then take (nat k) xs else take (length xs - nat (- k)) xs)"

definition dot :: "real list \<Rightarrow> real list \<Rightarrow> real" where
  "dot u v = sum_list (map2 (*) u v)"

definition similarity_search ::
  "runtime \<Rightarrow> VectorDatabase \<Rightarrow> string \<Rightarrow> int \<Rightarrow> exn + OEMProduct list" where
  "similarity_search rt self query_text k =
     (if \<not> is_initialized self
      then Inl (ValueError
        ''Vector database not initialized. Call initialize_from_products first.'')
      else
        ebind (embed (embedder self) query_text) (\<lambda>query_embedding.
          case (faiss rt, index self) of
            (Some search, Some vectors) \<Rightarrow>
              let indices = search vectors query_embedding
                              (min k (int (length (products self))))
              in index_all (products self)
                   (filter (\<lambda>idx. idx < int (length (products self))) indices)
          | _ \<Rightarrow>
              (case embeddings self of
                 None \<Rightarrow> Inl AttributeError
               | Some es \<Rightarrow>
                   let similarities = map (\<lambda>e. dot e query_embedding) es;
                       top_indices = slice_to k (rev (np_argsort rt similarities))
                   in index_all (products self) (map int top_indices))))"

text \<open>The squared Euclidean distance the specification ranks by.\<close>

definition sqdist :: "real list \<Rightarrow> real list \<Rightarrow> real" where
  "sqdist u v = sum_list (map2 (\<lambda>a b. (a - b) * (a - b)) u v)"

text \<open>
  What is assumed of \<open>np.argsort\<close>: it returns a permutation of the positions that lists
  the values in ascending order. Which of two equal values comes first is left open.
\<close>

definition argsort_spec :: "(real list \<Rightarrow> nat list) \<Rightarrow> bool" where
  "argsort_spec f =
     (\<forall>xs. distinct (f xs) \<and> set (f xs) = {..<length xs} \<and> sorted (map (\<lambda>i. xs ! i) (f xs)))"

text \<open>A stable argsort, used where a concrete run is evaluated.\<close>

definition stable_argsort :: "real list \<Rightarrow> nat list" where
  "stable_argsort xs = sort_key (\<lambda>i. xs ! i) [0..<length xs]"

definition sample_runtime :: runtime where
  "sample_runtime = \<lparr>set_iter = remdups, np_argsort = stable_argsort, faiss = None\<rparr>"

section \<open>Notions used to state the properties of the embedder\<close>

text \<open>
  The term frequencies \<open>embed\<close> works with: every count divided by the largest count of
  the text.
\<close>

definition relative_counts :: "string \<Rightarrow> (string \<times> real) list" where
  "relative_counts text =
     (let tf = term_counts (tokenize text);
          max_tf = (if tf \<noteq> [] then Max (set (map snd tf)) else 1)
      in map (\<lambda>(w, c). (w, real c / real max_tf)) tf)"

text \<open>
  A small catalogue for concrete runs: three products whose descriptions are \<open>cable\<close>,
  \<open>copper\<close> and \<open>aluminium cable\<close>, the embedder fitted on them, and a query that names
  \<open>copper\<close> five times and \<open>aluminium\<close> twelve times.
\<close>

definition demo_product :: "string \<Rightarrow> string \<Rightarrow> OEMProduct" where
  "demo_product sku description =
     \<lparr>sku_id = sku, product_name = sku, datasheet_text = description,
      specs = empty_attributes, category = None\<rparr>"

definition demo_products :: "OEMProduct list" where
  "demo_products =
     [demo_product ''P0'' ''cable'', demo_product ''P1'' ''copper'',
      demo_product ''P2'' ''aluminium cable'']"

definition demo_query :: string where
  "demo_query = ''copper copper copper copper copper aluminium aluminium aluminium aluminium aluminium aluminium aluminium aluminium aluminium aluminium aluminium aluminium''"

definition demo_embedder :: SimpleEmbedder where
  "demo_embedder =
     fit sample_runtime (SimpleEmbedder_init EMBEDDING_DIMENSION)
       [''cable'', ''copper'', ''aluminium cable'']"

lemma lower_char_idem: "lower_char (lower_char c) = lower_char c"
  by (simp add: lower_char_def Let_def)

lemma isspace_lower_char: "isspace (lower_char c) = isspace c"
  by (auto simp add: lower_char_def isspace_def Let_def)

lemma lower_idem: "lower (lower s) = lower s"
  by (simp add: lower_def lower_char_idem)

lemma dropWhile_isspace_lower: "dropWhile isspace (lower s) = lower (dropWhile isspace s)"
  by (induction s) (simp_all add: lower_def isspace_lower_char)

lemma rev_lower: "rev (lower t) = lower (rev t)"
  by (simp add: lower_def rev_map)

lemma lower_strip: "lower (strip s) = strip (lower s)"
  by (simp add: strip_def dropWhile_isspace_lower rev_lower)

lemma strip_idem: "strip (strip s) = strip s"
proof -
  define t where "t = dropWhile isspace s"
  define u where "u = dropWhile isspace (rev t)"
  have head_u: "u = [] \<or> \<not> isspace (hd u)"
    unfolding u_def by (metis hd_dropWhile)
  have last_u: "\<not> isspace (last u)" if "u \<noteq> []"
  proof -
    from that obtain x where x: "x \<in> set (rev t)" "\<not> isspace x"
      unfolding u_def by (metis dropWhile_eq_Nil_conv)
    then have "last u = last (rev t)"
      unfolding u_def by (rule dropWhile_last)
    also have "\<dots> = hd t" using x(1) by (cases t) auto
    finally have "last u = hd t" .
    moreover have "t \<noteq> []" using x(1) by auto
    then have "\<not> isspace (hd t)" unfolding t_def by (metis hd_dropWhile)
    ultimately show ?thesis by simp
  qed
  have "dropWhile isspace (rev u) = rev u"
  proof (cases "u = []")
    case True then show ?thesis by simp
  next
    case False
    then have "hd (rev u) = last u" by (simp add: hd_rev)
    with last_u[OF False] show ?thesis by (simp add: dropWhile_eq_self_iff)
  qed
  moreover have "dropWhile isspace u = u"
    using head_u by (simp add: dropWhile_eq_self_iff)
  moreover have "strip s = rev u" by (simp add: strip_def t_def u_def)
  ultimately show ?thesis by (simp add: strip_def)
qed

lemma table_values:
  "map_of NORMALIZED_VALUES n = Some c \<Longrightarrow>
     c \<in> {''al'', ''cu'', ''xlpe'', ''pvc'', ''epr'', ''gi_strip'', ''gi_wire'', ''swa'',
          ''unarmoured'', ''pe'', ''lszh''}"
  by (auto simp: NORMALIZED_VALUES_def split: if_splits)

lemma table_fixed_points:
  "normalize_value ''al'' t = ''al''"
  "normalize_value ''cu'' t = ''cu''"
  "normalize_value ''xlpe'' t = ''xlpe''"
  "normalize_value ''pvc'' t = ''pvc''"
  "normalize_value ''epr'' t = ''epr''"
  "normalize_value ''gi_strip'' t = ''gi_strip''"
  "normalize_value ''gi_wire'' t = ''gi_wire''"
  "normalize_value ''swa'' t = ''swa''"
  "normalize_value ''unarmoured'' t = ''unarmoured''"
  "normalize_value ''pe'' t = ''pe''"
  "normalize_value ''lszh'' t = ''lszh''"
  by code_simp+

lemma table_fixed:
  "c \<in> {''al'', ''cu'', ''xlpe'', ''pvc'', ''epr'', ''gi_strip'', ''gi_wire'', ''swa'',
          ''unarmoured'', ''pe'', ''lszh''} \<Longrightarrow> normalize_value c t = c"
  using table_fixed_points by auto

lemma normalize_value_idem: "normalize_value (normalize_value v t) t' = normalize_value v t"
proof (cases "v = []")
  case True then show ?thesis by (simp add: normalize_value_def)
next
  case False
  define n where "n = strip (lower v)"
  show ?thesis
  proof (cases "map_of NORMALIZED_VALUES n")
    case (Some c)
    then have "normalize_value v t = c" using False by (simp add: normalize_value_def n_def)
    moreover have "normalize_value c t' = c" using table_values[OF Some] by (rule table_fixed)
    ultimately show ?thesis by simp
  next
    case None
    then have nv: "normalize_value v t = n" using False by (simp add: normalize_value_def n_def)
    have "strip (lower n) = n"
      by (simp add: n_def lower_strip[symmetric] lower_idem strip_idem)
    then have "normalize_value n t' = n"
      using None by (simp add: normalize_value_def)
    with nv show ?thesis by simp
  qed
qed

lemma compare_voltage_int_left: "compare_voltage (PyInt i) b = Inr 0"
  by (simp add: compare_voltage_def compare_voltage_try_def ebind_def method_replace_def)

lemma compare_voltage_int_right: "compare_voltage (PyStr r) (PyInt i) = Inr 0"
  by (simp add: compare_voltage_def compare_voltage_try_def ebind_def method_replace_def
        float_of_def split: option.splits)

lemma compare_voltage_str:
  "compare_voltage (PyStr r) (PyStr q) =
     (case py_float (replace (replace r ''kv'' '''') ''v'' '''') of
        None \<Rightarrow> Inr 0
      | Some x \<Rightarrow>
          (case py_float (replace (replace q ''kv'' '''') ''v'' '''') of
             None \<Rightarrow> Inr 0
           | Some y \<Rightarrow>
               Inr (if flt (fabs (fsub x y)) (Finite (1 / 10)) then 1
                    else if fgt y x then 8 / 10 else 0)))"
  by (simp add: compare_voltage_def compare_voltage_try_def ebind_def method_replace_def
        float_of_def split: option.splits)

lemma compare_voltage_values:
  "compare_voltage a b = Inr 0 \<or> compare_voltage a b = Inr (8 / 10) \<or> compare_voltage a b = Inr 1"
proof (cases a)
  case (PyInt i) then show ?thesis by (simp add: compare_voltage_int_left)
next
  case a: (PyStr r)
  show ?thesis
  proof (cases b)
    case (PyInt i) then show ?thesis by (simp add: a compare_voltage_int_right)
  next
    case (PyStr q) then show ?thesis
      by (simp add: a compare_voltage_str split: option.splits)
  qed
qed

lemma compare_cross_section_int_left: "compare_cross_section (PyInt i) b = Inr 0"
  by (simp add: compare_cross_section_def compare_cross_section_try_def ebind_def
        method_replace_def)

lemma compare_cross_section_int_right: "compare_cross_section (PyStr r) (PyInt i) = Inr 0"
  by (simp add: compare_cross_section_def compare_cross_section_try_def ebind_def
        method_replace_def float_of_def split: option.splits)

lemma compare_cross_section_str:
  "compare_cross_section (PyStr r) (PyStr q) =
     (case py_float (replace r ''sqmm'' '''') of
        None \<Rightarrow> Inr 0
      | Some x \<Rightarrow>
          (case py_float (replace q ''sqmm'' '''') of
             None \<Rightarrow> Inr 0
           | Some y \<Rightarrow>
               Inr (if flt (fabs (fsub x y)) (Finite (1 / 10)) then 1
                    else if fgt y x then 9 / 10 else 0)))"
  by (simp add: compare_cross_section_def compare_cross_section_try_def ebind_def
        method_replace_def float_of_def split: option.splits)

lemma compare_cross_section_values:
  "compare_cross_section a b = Inr 0 \<or> compare_cross_section a b = Inr (9 / 10)
     \<or> compare_cross_section a b = Inr 1"
proof (cases a)
  case (PyInt i) then show ?thesis by (simp add: compare_cross_section_int_left)
next
  case a: (PyStr r)
  show ?thesis
  proof (cases b)
    case (PyInt i) then show ?thesis by (simp add: a compare_cross_section_int_right)
  next
    case (PyStr q) then show ?thesis
      by (simp add: a compare_cross_section_str split: option.splits)
  qed
qed

lemma compare_attribute_total:
  "\<exists>c. compare_attribute n a b = Inr c \<and> 0 \<le> c \<and> c \<le> 1"
proof -
  define x where "x = normalize_pyval a n"
  define y where "y = normalize_pyval b n"
  have v: "\<exists>c. compare_voltage x y = Inr c \<and> 0 \<le> c \<and> c \<le> 1"
    using compare_voltage_values[of x y] by auto
  have cs: "\<exists>c. compare_cross_section x y = Inr c \<and> 0 \<le> c \<and> c \<le> 1"
    using compare_cross_section_values[of x y] by auto
  show ?thesis
    unfolding compare_attribute_def Let_def x_def[symmetric] y_def[symmetric]
    using v cs by simp
qed

lemma compare_attribute_credit: "compare_attribute n a b = Inr (credit n a b)"
  using compare_attribute_total[of n a b] by (auto simp: credit_def)

lemma credit_bounds: "0 \<le> credit n a b" "credit n a b \<le> 1"
  using compare_attribute_total[of n a b] by (auto simp: credit_def)

lemma credit_refl: "credit n a a = 1"
  by (simp add: credit_def compare_attribute_def)

lemma credit_not_pos: "\<not> 0 < credit n a b \<Longrightarrow> credit n a b = 0"
  using credit_bounds(1)[of n a b] by simp

lemma score_step_unspecified:
  "map_of rd n = None \<Longrightarrow>
     score_step rd od (n, w) (s, m, mm, ms) = Inr (s + w, m, mm, ms)"
  by (simp add: score_step_def)

lemma score_step_missing:
  "map_of rd n = Some rv \<Longrightarrow> map_of od n = None \<Longrightarrow>
     score_step rd od (n, w) (s, m, mm, ms) = Inr (s, m, mm, ms @ [n])"
  by (simp add: score_step_def)

lemma score_step_compared:
  "map_of rd n = Some rv \<Longrightarrow> map_of od n = Some ov \<Longrightarrow>
     score_step rd od (n, w) (s, m, mm, ms) =
       (if credit n rv ov = 1 then Inr (s + w, m @ [n], mm, ms)
        else if credit n rv ov > 0
          then Inr (s + w * credit n rv ov, m, mm @ [n @ '' (partial)''], ms)
        else Inr (s, m, mm @ [n], ms))"
  by (simp add: score_step_def compare_attribute_credit ebind_def)

lemma score_step_eq:
  "score_step rd od (n, w) (s, m, mm, ms) =
     Inr (s + awarded rd od (n, w),
          m @ matched_of rd od [(n, w)],
          mm @ mismatched_of rd od [(n, w)],
          ms @ missing_of rd od [(n, w)])"
proof (cases "map_of rd n")
  case None
  then show ?thesis
    by (simp add: score_step_unspecified awarded_def matched_of_def mismatched_of_def
          mismatched_label_def missing_of_def verdict_of_def List.map_filter_simps)
next
  case r: (Some rv)
  show ?thesis
  proof (cases "map_of od n")
    case None
    then show ?thesis
      by (simp add: r score_step_missing[OF r] awarded_def matched_of_def mismatched_of_def
            mismatched_label_def missing_of_def verdict_of_def List.map_filter_simps)
  next
    case (Some ov)
    consider "credit n rv ov = 1" | "credit n rv ov \<noteq> 1" "0 < credit n rv ov"
      | "credit n rv ov = 0"
      using credit_not_pos[of n rv ov] by blast
    then show ?thesis
      by cases
         (simp_all add: r Some score_step_compared[OF r Some] awarded_def matched_of_def
            mismatched_of_def mismatched_label_def missing_of_def verdict_of_def
            List.map_filter_simps)
  qed
qed

lemma matched_of_Cons: "matched_of rd od (x # xs) = matched_of rd od [x] @ matched_of rd od xs"
  by (simp add: matched_of_def)

lemma missing_of_Cons: "missing_of rd od (x # xs) = missing_of rd od [x] @ missing_of rd od xs"
  by (simp add: missing_of_def)

lemma mismatched_of_Cons:
  "mismatched_of rd od (x # xs) = mismatched_of rd od [x] @ mismatched_of rd od xs"
  by (simp add: mismatched_of_def List.map_filter_simps split: option.splits)

lemma score_loop_eq:
  "score_loop rd od items (s, m, mm, ms) =
     Inr (s + sum_list (map (awarded rd od) items),
          m @ matched_of rd od items,
          mm @ mismatched_of rd od items,
          ms @ missing_of rd od items)"
proof (induction items arbitrary: s m mm ms)
  case Nil
  show ?case
    by (simp add: matched_of_def mismatched_of_def missing_of_def List.map_filter_simps)
next
  case (Cons x xs)
  obtain n w where x: "x = (n, w)" by (cases x)
  have "score_loop rd od (x # xs) (s, m, mm, ms) =
          score_loop rd od xs (s + awarded rd od (n, w), m @ matched_of rd od [(n, w)],
            mm @ mismatched_of rd od [(n, w)], ms @ missing_of rd od [(n, w)])"
    by (simp add: x score_step_eq ebind_def)
  also have "\<dots> = Inr (s + sum_list (map (awarded rd od) (x # xs)),
          m @ matched_of rd od (x # xs),
          mm @ mismatched_of rd od (x # xs),
          ms @ missing_of rd od (x # xs))"
    unfolding Cons.IH
    by (simp add: x matched_of_Cons[of rd od "(n, w)" xs]
          missing_of_Cons[of rd od "(n, w)" xs] mismatched_of_Cons[of rd od "(n, w)" xs]
          add.assoc)
  finally show ?case .
qed

lemma calculate_match_score_eq:
  "calculate_match_score self rfp oem =
     Inr (round2 (sum_list (map (awarded (to_normalized_dict rfp) (to_normalized_dict oem))
                              (weights self)) * 100),
          matched_of (to_normalized_dict rfp) (to_normalized_dict oem) (weights self),
          mismatched_of (to_normalized_dict rfp) (to_normalized_dict oem) (weights self),
          missing_of (to_normalized_dict rfp) (to_normalized_dict oem) (weights self))"
  by (simp add: calculate_match_score_def Let_def score_loop_eq ebind_def)

lemma round2_numerator:
  "round2 x = of_int (let y = x * 100; f = \<lfloor>y\<rfloor>; d = y - of_int f
      in (if d < 1 / 2 then f else if 1 / 2 < d then f + 1 else if even f then f else f + 1)) / 100"
  by (simp add: round2_def Let_def)

lemma round2_hundredths: "round2 (of_int k / 100) = of_int k / 100"
  by (simp add: round2_def Let_def)

lemma round2_idem: "round2 (round2 x) = round2 x"
proof -
  obtain k where "round2 x = of_int k / 100"
    using round2_numerator[of x] by blast
  then show ?thesis by (simp only: round2_hundredths)
qed





lemma map_of_present_items:
  "distinct (map fst xs) \<Longrightarrow>
     map_of (List.map_filter (\<lambda>(k, v). map_option (Pair k) v) xs) n =
       (case map_of xs n of None \<Rightarrow> None | Some v \<Rightarrow> v)"
proof (induction xs)
  case Nil
  show ?case by (simp add: List.map_filter_simps)
next
  case (Cons x xs)
  obtain k v where x: "x = (k, v)" by (cases x)
  have absent: "map_of xs k = None" using Cons.prems by (simp add: x map_of_eq_None_iff)
  have IH: "map_of (List.map_filter (\<lambda>(k, v). map_option (Pair k) v) xs) n =
       (case map_of xs n of None \<Rightarrow> None | Some v \<Rightarrow> v)"
    using Cons by simp
  show ?case
    by (cases v) (simp_all add: x List.map_filter_simps IH absent)
qed

lemma map_of_to_normalized_dict:
  "map_of (to_normalized_dict a) n =
     (if n = ''voltage'' then map_option PyStr (voltage a)
      else if n = ''conductor_material'' then map_option PyStr (conductor_material a)
      else if n = ''cross_section'' then map_option PyStr (cross_section a)
      else if n = ''core_count'' then map_option PyInt (core_count a)
      else if n = ''insulation'' then map_option PyStr (insulation a)
      else if n = ''armouring'' then map_option PyStr (armouring a)
      else if n = ''sheathing'' then map_option PyStr (sheathing a)
      else None)"
  unfolding to_normalized_dict_def
  by (subst map_of_present_items) simp_all

lemma calculate_match_score_total:
  "\<exists>s m mm ms. calculate_match_score self rfp oem = Inr (s, m, mm, ms) \<and> round2 s = s"
  by (simp add: calculate_match_score_eq round2_idem)

lemma match_product_total:
  "\<exists>r. match_product self item product = Inr r \<and>
        match_status r = classify MINIMUM_MATCH_THRESHOLD (match_score r)"
  by (simp add: match_product_def calculate_match_score_eq ebind_def)

text \<open>
  Claim C7. The status of a match follows the score: \<open>EXACT_MATCH\<close> from 95 up,
  \<open>CLOSE_MATCH\<close> from 80 up to 95, \<open>PARTIAL_MATCH\<close> from the minimum threshold up to 80,
  \<open>NO_MATCH\<close> in every other case; \<open>match_product\<close> always returns a result, whose
  status is the one of its score for the configured threshold 60.
\<close>

theorem match_status_thresholds:
  "(95 \<le> s \<longrightarrow> classify t s = EXACT_MATCH) \<and>
   (80 \<le> s \<and> s < 95 \<longrightarrow> classify t s = CLOSE_MATCH) \<and>
   (t \<le> s \<and> s < 80 \<longrightarrow> classify t s = PARTIAL_MATCH) \<and>
   (\<not> 95 \<le> s \<and> \<not> (80 \<le> s \<and> s < 95) \<and> \<not> (t \<le> s \<and> s < 80) \<longrightarrow> classify t s = NO_MATCH) \<and>
   (\<exists>r. match_product self item product = Inr r \<and>
        match_status r = classify 60 (match_score r))"
  using match_product_total[of self item product]
  by (auto simp: classify_def MINIMUM_MATCH_THRESHOLD_def)

theorem match_status_thresholds_witness:
  "classify 60 95 = EXACT_MATCH \<and> classify 60 (9499 / 100) = CLOSE_MATCH \<and>
   classify 60 80 = CLOSE_MATCH \<and> classify 60 (7999 / 100) = PARTIAL_MATCH \<and>
   classify 60 60 = PARTIAL_MATCH \<and> classify 60 (5999 / 100) = NO_MATCH"
  using match_status_thresholds[of 95 60] match_status_thresholds[of "9499 / 100" 60]
    match_status_thresholds[of 80 60] match_status_thresholds[of "7999 / 100" 60]
    match_status_thresholds[of 60 60] match_status_thresholds[of "5999 / 100" 60]
  by simp

text \<open>
  Claim C3, as amended. Without a mapping, or with an empty one, the engine is built on the
  default weights. With a non-empty mapping, construction fails exactly when the sum of
  the values differs from 1 by more than 0.01, and succeeds otherwise; the sign of the
  single weights plays no part. The amended statement is about finite weights with exact
  arithmetic.
\<close>

theorem init_validation:
  "init None = Inr \<lparr>weights = ATTRIBUTE_WEIGHTS\<rparr> \<and>
   init (Some []) = Inr \<lparr>weights = ATTRIBUTE_WEIGHTS\<rparr> \<and>
   (d \<noteq> [] \<and> \<bar>sum_list (map snd d) - 1\<bar> > 1 / 100 \<longrightarrow>
      init (Some d) = Inl (ValueError ''Weights must sum to 1.0'')) \<and>
   (d \<noteq> [] \<and> \<bar>sum_list (map snd d) - 1\<bar> \<le> 1 / 100 \<longrightarrow>
      init (Some d) = Inr \<lparr>weights = d\<rparr>)"
  by (simp add: init_def ATTRIBUTE_WEIGHTS_def)

theorem init_validation_witness:
  "init (Some [(''voltage'', 1 / 2)]) = Inl (ValueError ''Weights must sum to 1.0'') \<and>
   init (Some [(''voltage'', 3 / 4), (''core_count'', 1 / 4)])
     = Inr \<lparr>weights = [(''voltage'', 3 / 4), (''core_count'', 1 / 4)]\<rparr>"
  using init_validation[of "[(''voltage'', 1 / 2)]"]
    init_validation[of "[(''voltage'', 3 / 4), (''core_count'', 1 / 4)]"]
  by simp

text \<open>
  The claim as stated fails: a mapping with a negative weight whose values sum to 1 is
  accepted.
\<close>

theorem init_negative_weight_counterexample:
  "(- 1 / 2 :: rat) < 0 \<and>
   init (Some [(''voltage'', 3 / 2), (''core_count'', - 1 / 2)])
     = Inr \<lparr>weights = [(''voltage'', 3 / 2), (''core_count'', - 1 / 2)]\<rparr>"
  by (simp add: init_def)

lemma to_normalized_dict_empty: "to_normalized_dict empty_attributes = []"
  by (simp add: to_normalized_dict_def empty_attributes_def List.map_filter_simps)

lemma awarded_unspecified: "awarded [] od = snd"
  by (rule ext) (simp add: awarded_def)

lemma sum_default_weights: "sum_list (map snd ATTRIBUTE_WEIGHTS) = 1"
  by (simp add: ATTRIBUTE_WEIGHTS_def)

lemma round2_100: "round2 (1 * 100) = 100"
  using round2_hundredths[of 10000] by simp

lemma empty_requirement_score:
  "calculate_match_score self empty_attributes oem =
     Inr (round2 (sum_list (map snd (weights self)) * 100), [], [], [])"
  by (simp add: calculate_match_score_eq to_normalized_dict_empty awarded_unspecified
        matched_of_def mismatched_of_def mismatched_label_def missing_of_def verdict_of_def
        List.map_filter_def)

text \<open>
  Claim C1, as amended. In an iteration of the scoring loop, an attribute the requirement
  has no value for adds its full weight to the score and leaves the three lists as they
  are; an attribute the requirement has a value for and the candidate has not adds nothing
  and is appended to the missing list. A requirement with no attribute at all scores the
  rounded hundredfold of the sum of the weights, with three empty lists, against every
  candidate: that is 100 when the weights sum to exactly 1, as the default weights do.
\<close>

theorem unspecified_and_missing_policy:
  "(map_of rd n = None \<longrightarrow>
      score_step rd od (n, w) (s, m, mm, ms) = Inr (s + w, m, mm, ms)) \<and>
   (map_of rd n = Some rv \<and> map_of od n = None \<longrightarrow>
      score_step rd od (n, w) (s, m, mm, ms) = Inr (s, m, mm, ms @ [n])) \<and>
   calculate_match_score self empty_attributes oem =
     Inr (round2 (sum_list (map snd (weights self)) * 100), [], [], []) \<and>
   (sum_list (map snd (weights self)) = 1 \<longrightarrow>
      calculate_match_score self empty_attributes oem = Inr (100, [], [], [])) \<and>
   calculate_match_score \<lparr>weights = ATTRIBUTE_WEIGHTS\<rparr> empty_attributes oem
     = Inr (100, [], [], [])"
  using round2_100
  by (auto simp: score_step_unspecified score_step_missing empty_requirement_score
        sum_default_weights)

theorem unspecified_and_missing_policy_witness:
  "score_step [] [] (''voltage'', 1 / 4) (0, [], [], []) = Inr (0 + 1 / 4, [], [], []) \<and>
   score_step [(''voltage'', PyStr ''11kv'')] [] (''voltage'', 1 / 4) (0, [], [], [])
     = Inr (0, [], [], [] @ [''voltage'']) \<and>
   calculate_match_score \<lparr>weights = [(''voltage'', 1 / 2), (''core_count'', 1 / 2)]\<rparr>
     empty_attributes sample_attributes = Inr (100, [], [], [])"
  using unspecified_and_missing_policy[of "[]" "''voltage''" "[]" "1 / 4" 0 "[]" "[]" "[]"
          "PyStr ''11kv''" "\<lparr>weights = [(''voltage'', 1 / 2), (''core_count'', 1 / 2)]\<rparr>"
          sample_attributes]
    unspecified_and_missing_policy[of "[(''voltage'', PyStr ''11kv'')]" "''voltage''" "[]"
          "1 / 4" 0 "[]" "[]" "[]" "PyStr ''11kv''"]
  by simp

text \<open>
  The claim as stated fails for an engine whose accepted weights do not sum to exactly 1:
  with the single weight 0.9921875 the empty requirement scores 99.22.
\<close>

theorem empty_requirement_counterexample:
  "init (Some [(''voltage'', 127 / 128)]) = Inr \<lparr>weights = [(''voltage'', 127 / 128)]\<rparr> \<and>
   calculate_match_score \<lparr>weights = [(''voltage'', 127 / 128)]\<rparr> empty_attributes
     sample_attributes = Inr (9922 / 100, [], [], []) \<and>
   (9922 / 100 :: rat) \<noteq> 100"
  by code_simp


lemma round2_0: "round2 0 = 0"
  using round2_hundredths[of 0] by simp




lemma awarded_same: "awarded rd rd item = snd item"
  by (simp add: awarded_def credit_refl split: option.splits)

lemma awarded_same_fun: "awarded rd rd = snd"
  by (rule ext) (rule awarded_same)

lemma verdict_same:
  "verdict_of rd rd n = (if map_of rd n = None then Unspecified else Matched)"
  by (simp add: verdict_of_def credit_refl split: option.splits)

lemma mismatched_of_same: "mismatched_of rd rd items = []"
  by (induction items)
     (simp_all add: mismatched_of_def mismatched_label_def verdict_same List.map_filter_simps)

lemma missing_of_same: "missing_of rd rd items = []"
  by (simp add: missing_of_def verdict_same)

lemma matched_of_same:
  "matched_of rd rd items = filter (\<lambda>n. map_of rd n \<noteq> None) (map fst items)"
  by (simp add: matched_of_def verdict_same)

lemma identity_score_general:
  "calculate_match_score self R R =
     Inr (round2 (sum_list (map snd (weights self)) * 100),
          filter (\<lambda>n. map_of (to_normalized_dict R) n \<noteq> None) (map fst (weights self)),
          [], [])"
  by (simp add: calculate_match_score_eq awarded_same_fun mismatched_of_same
        missing_of_same matched_of_same)

text \<open>
  Claim C8, as amended. Scoring a record against itself never records a mismatch or a
  missing attribute and awards every weight in full, so the score is the rounded hundredfold
  of the sum of the weights: 100 when the weights sum to exactly 1. With the default
  weights a fully specified record scores 100 against itself with all seven attributes
  matched.
\<close>

theorem identity_score:
  "calculate_match_score self R R =
     Inr (round2 (sum_list (map snd (weights self)) * 100),
          filter (\<lambda>n. map_of (to_normalized_dict R) n \<noteq> None) (map fst (weights self)),
          [], []) \<and>
   (sum_list (map snd (weights self)) = 1 \<longrightarrow>
      calculate_match_score self R R =
        Inr (100, filter (\<lambda>n. map_of (to_normalized_dict R) n \<noteq> None)
                    (map fst (weights self)), [], [])) \<and>
   (voltage R \<noteq> None \<and> conductor_material R \<noteq> None \<and> cross_section R \<noteq> None \<and>
    core_count R \<noteq> None \<and> insulation R \<noteq> None \<and> armouring R \<noteq> None \<and>
    sheathing R \<noteq> None \<longrightarrow>
      calculate_match_score \<lparr>weights = ATTRIBUTE_WEIGHTS\<rparr> R R =
        Inr (100, map fst ATTRIBUTE_WEIGHTS, [], []))"
proof -
  have full: "filter (\<lambda>n. map_of (to_normalized_dict R) n \<noteq> None) (map fst ATTRIBUTE_WEIGHTS)
      = map fst ATTRIBUTE_WEIGHTS"
    if "voltage R \<noteq> None \<and> conductor_material R \<noteq> None \<and> cross_section R \<noteq> None \<and>
      core_count R \<noteq> None \<and> insulation R \<noteq> None \<and> armouring R \<noteq> None \<and>
      sheathing R \<noteq> None"
    using that by (simp add: map_of_to_normalized_dict ATTRIBUTE_WEIGHTS_def)
  show ?thesis
    using round2_100 full
    by (simp add: identity_score_general sum_default_weights)
qed

theorem identity_score_witness:
  "calculate_match_score \<lparr>weights = [(''voltage'', 1 / 2), (''sheathing'', 1 / 2)]\<rparr>
     sample_attributes sample_attributes = Inr (100, [''voltage'', ''sheathing''], [], []) \<and>
   calculate_match_score \<lparr>weights = ATTRIBUTE_WEIGHTS\<rparr> sample_attributes sample_attributes
     = Inr (100, map fst ATTRIBUTE_WEIGHTS, [], [])"
proof -
  have a: "sum_list (map snd (weights \<lparr>weights = [(''voltage'', 1 / 2), (''sheathing'', 1 / 2)]\<rparr>)) = 1"
    by simp
  have b: "voltage sample_attributes \<noteq> None \<and> conductor_material sample_attributes \<noteq> None \<and>
    cross_section sample_attributes \<noteq> None \<and> core_count sample_attributes \<noteq> None \<and>
    insulation sample_attributes \<noteq> None \<and> armouring sample_attributes \<noteq> None \<and>
    sheathing sample_attributes \<noteq> None"
    by (simp add: sample_attributes_def)
  have c: "filter (\<lambda>n. map_of (to_normalized_dict sample_attributes) n \<noteq> None)
      (map fst (weights \<lparr>weights = [(''voltage'', 1 / 2), (''sheathing'', 1 / 2)]\<rparr>))
      = [''voltage'', ''sheathing'']"
    by (simp add: map_of_to_normalized_dict sample_attributes_def)
  note t = identity_score[of "\<lparr>weights = [(''voltage'', 1 / 2), (''sheathing'', 1 / 2)]\<rparr>"
            sample_attributes]
  from t a have "calculate_match_score \<lparr>weights = [(''voltage'', 1 / 2), (''sheathing'', 1 / 2)]\<rparr>
     sample_attributes sample_attributes = Inr (100,
       filter (\<lambda>n. map_of (to_normalized_dict sample_attributes) n \<noteq> None)
         (map fst (weights \<lparr>weights = [(''voltage'', 1 / 2), (''sheathing'', 1 / 2)]\<rparr>)), [], [])"
    by blast
  then have first: "calculate_match_score \<lparr>weights = [(''voltage'', 1 / 2), (''sheathing'', 1 / 2)]\<rparr>
     sample_attributes sample_attributes = Inr (100, [''voltage'', ''sheathing''], [], [])"
    by (simp only: c)
  from t b have "calculate_match_score \<lparr>weights = ATTRIBUTE_WEIGHTS\<rparr> sample_attributes
     sample_attributes = Inr (100, map fst ATTRIBUTE_WEIGHTS, [], [])"
    by blast
  with first show ?thesis by blast
qed

text \<open>
  The claim as stated fails for an engine whose accepted weights do not sum to exactly 1:
  with the single weight 0.9921875 a fully specified record scores 99.22 against itself.
\<close>

theorem identity_score_counterexample:
  "init (Some [(''voltage'', 127 / 128)]) = Inr \<lparr>weights = [(''voltage'', 127 / 128)]\<rparr> \<and>
   calculate_match_score \<lparr>weights = [(''voltage'', 127 / 128)]\<rparr> sample_attributes
     sample_attributes = Inr (9922 / 100, [''voltage''], [], []) \<and>
   (9922 / 100 :: rat) \<noteq> 100"
  by code_simp

lemma compare_core_count_int:
  "compare_attribute ''core_count'' (PyInt a) (PyInt b) = Inr (if a = b then 1 else 0)"
  by (simp add: compare_attribute_def normalize_pyval_def)

lemma compare_core_count_values:
  "compare_attribute ''core_count'' x y = Inr 1 \<or> compare_attribute ''core_count'' x y = Inr 0"
  by (simp add: compare_attribute_def Let_def)

lemma sum_list_without_key:
  "distinct (map fst xs) \<Longrightarrow> (k, v) \<in> set xs \<Longrightarrow>
     sum_list (map (\<lambda>item. if fst item = k then 0 else snd item) xs)
       = sum_list (map snd xs) - (v :: rat)"
proof (induction xs)
  case Nil
  then show ?case by simp
next
  case (Cons x xs)
  show ?case
  proof (cases "x = (k, v)")
    case True
    then have "k \<notin> fst ` set xs" using Cons.prems(1) by simp
    then have "\<forall>item \<in> set xs. fst item \<noteq> k" by force
    then have eq: "map (\<lambda>item. if fst item = k then 0 else snd item) xs = map snd xs"
      by (intro map_cong) auto
    have "sum_list (map (\<lambda>item. if fst item = k then 0 else snd item) (x # xs))
        = sum_list (map (\<lambda>item. if fst item = k then 0 else snd item) xs)"
      by (simp add: True)
    also have "\<dots> = sum_list (map snd xs)" by (simp only: eq)
    also have "\<dots> = sum_list (map snd (x # xs)) - v" by (simp add: True)
    finally show ?thesis .
  next
    case False
    then have mem: "(k, v) \<in> set xs" using Cons.prems(2) by simp
    then have "k \<in> fst ` set xs" by force
    then have "fst x \<noteq> k" using Cons.prems(1) by auto
    moreover have "distinct (map fst xs)" using Cons.prems(1) by simp
    ultimately show ?thesis using Cons.IH mem by simp
  qed
qed

lemma map_filter_absent_key:
  "k \<notin> set xs \<Longrightarrow> List.map_filter (\<lambda>n. if n = k then Some k else None) xs = []"
  by (induction xs) (auto simp: List.map_filter_simps)

lemma map_filter_single_key:
  "distinct xs \<Longrightarrow> k \<in> set xs \<Longrightarrow>
     List.map_filter (\<lambda>n. if n = k then Some k else None) xs = [k]"
proof (induction xs)
  case Nil
  then show ?case by simp
next
  case (Cons x xs)
  show ?case
  proof (cases "x = k")
    case True
    then have "k \<notin> set xs" using Cons.prems(1) by simp
    then have "List.map_filter (\<lambda>n. if n = k then Some k else None) xs = []"
      by (rule map_filter_absent_key)
    with True show ?thesis by (simp add: List.map_filter_simps)
  next
    case False
    then show ?thesis using Cons by (simp add: List.map_filter_simps)
  qed
qed

lemma core_count_mismatch_score:
  assumes dist: "distinct (map fst (weights self))"
    and mem: "(''core_count'', wc) \<in> set (weights self)"
    and rfp: "core_count R = Some a" and neq: "a \<noteq> b"
  shows "calculate_match_score self R (R\<lparr>core_count := Some b\<rparr>) =
     Inr (round2 ((sum_list (map snd (weights self)) - wc) * 100),
          filter (\<lambda>n. n \<noteq> ''core_count'' \<and> map_of (to_normalized_dict R) n \<noteq> None)
            (map fst (weights self)),
          [''core_count''], [])"
proof -
  define rd where "rd = to_normalized_dict R"
  define od where "od = to_normalized_dict (R\<lparr>core_count := Some b\<rparr>)"
  have rd_cc: "map_of rd ''core_count'' = Some (PyInt a)"
    by (simp add: rd_def map_of_to_normalized_dict rfp)
  have od_cc: "map_of od ''core_count'' = Some (PyInt b)"
    by (simp add: od_def map_of_to_normalized_dict)
  have od_other: "map_of od n = map_of rd n" if "n \<noteq> ''core_count''" for n
    using that by (simp add: od_def rd_def map_of_to_normalized_dict)
  have credit_cc: "credit ''core_count'' (PyInt a) (PyInt b) = 0"
    using neq by (simp add: credit_def compare_core_count_int)
  have verdict: "verdict_of rd od n =
      (if n = ''core_count'' then Mismatched
       else if map_of rd n = None then Unspecified else Matched)" for n
    by (auto simp: verdict_of_def rd_cc od_cc credit_cc od_other credit_refl
          split: option.splits)
  have aw: "awarded rd od = (\<lambda>item. if fst item = ''core_count'' then 0 else snd item)"
    by (rule ext)
       (auto simp: awarded_def rd_cc od_cc credit_cc od_other credit_refl split: option.splits)
  have total: "sum_list (map (awarded rd od) (weights self))
      = sum_list (map snd (weights self)) - wc"
    unfolding aw by (rule sum_list_without_key[OF dist mem])
  have keys: "distinct (map fst (weights self))" "''core_count'' \<in> set (map fst (weights self))"
    using dist mem by force+
  have label: "mismatched_label rd od = (\<lambda>n. if n = ''core_count'' then Some ''core_count'' else None)"
    by (rule ext) (simp add: mismatched_label_def verdict)
  have mm: "mismatched_of rd od (weights self) = [''core_count'']"
    unfolding mismatched_of_def label by (rule map_filter_single_key[OF keys])
  have ms: "missing_of rd od (weights self) = []"
    by (simp add: missing_of_def verdict)
  have m: "matched_of rd od (weights self) =
      filter (\<lambda>n. n \<noteq> ''core_count'' \<and> map_of rd n \<noteq> None) (map fst (weights self))"
    unfolding matched_of_def by (rule filter_cong) (auto simp: verdict)
  show ?thesis
    unfolding calculate_match_score_eq rd_def[symmetric] od_def[symmetric] total mm ms m
    by simp
qed

lemma round2_85: "round2 ((1 - 15 / 100) * 100) = 85"
  using round2_hundredths[of 8500] by simp

text \<open>
  Claim C6, as amended. The comparison of two \<open>core_count\<close> values yields the credit 1
  when they are equal and 0 when they are not, never a value in between. When the two
  records differ in \<open>core_count\<close> only, the mismatch is the one recorded and the score is
  the rounded hundredfold of the sum of the other weights; with the default weights this
  is 85, that is 100 minus the hundredfold of the weight of \<open>core_count\<close>.
\<close>

theorem core_count_equality_only:
  "compare_attribute ''core_count'' (PyInt a) (PyInt b) = Inr (if a = b then 1 else 0) \<and>
   (compare_attribute ''core_count'' x y = Inr 1 \<or> compare_attribute ''core_count'' x y = Inr 0) \<and>
   (distinct (map fst (weights self)) \<and> (''core_count'', wc) \<in> set (weights self) \<and>
    core_count R = Some a \<and> a \<noteq> b \<longrightarrow>
      calculate_match_score self R (R\<lparr>core_count := Some b\<rparr>) =
        Inr (round2 ((sum_list (map snd (weights self)) - wc) * 100),
             filter (\<lambda>n. n \<noteq> ''core_count'' \<and> map_of (to_normalized_dict R) n \<noteq> None)
               (map fst (weights self)),
             [''core_count''], [])) \<and>
   (core_count R = Some a \<and> a \<noteq> b \<longrightarrow>
      calculate_match_score \<lparr>weights = ATTRIBUTE_WEIGHTS\<rparr> R (R\<lparr>core_count := Some b\<rparr>) =
        Inr (85,
             filter (\<lambda>n. n \<noteq> ''core_count'' \<and> map_of (to_normalized_dict R) n \<noteq> None)
               (map fst ATTRIBUTE_WEIGHTS),
             [''core_count''], []))"
proof -
  have default: "calculate_match_score \<lparr>weights = ATTRIBUTE_WEIGHTS\<rparr> R (R\<lparr>core_count := Some b\<rparr>) =
        Inr (85,
             filter (\<lambda>n. n \<noteq> ''core_count'' \<and> map_of (to_normalized_dict R) n \<noteq> None)
               (map fst ATTRIBUTE_WEIGHTS),
             [''core_count''], [])"
    if h: "core_count R = Some a" "a \<noteq> b"
  proof -
    have d: "distinct (map fst (weights \<lparr>weights = ATTRIBUTE_WEIGHTS\<rparr>))"
      by (simp add: ATTRIBUTE_WEIGHTS_def)
    have m: "(''core_count'', 15 / 100) \<in> set (weights \<lparr>weights = ATTRIBUTE_WEIGHTS\<rparr>)"
      by (simp add: ATTRIBUTE_WEIGHTS_def)
    show ?thesis
      using core_count_mismatch_score[OF d m h] round2_85
      by (simp add: sum_default_weights)
  qed
  show ?thesis
    using default core_count_mismatch_score[of self wc R a b]
    by (simp add: compare_core_count_int compare_core_count_values)
qed

theorem core_count_equality_only_witness:
  "compare_attribute ''core_count'' (PyInt 3) (PyInt 4) = Inr 0 \<and>
   calculate_match_score \<lparr>weights = [(''voltage'', 3 / 4), (''core_count'', 1 / 4)]\<rparr>
     sample_attributes (sample_attributes\<lparr>core_count := Some 4\<rparr>)
       = Inr (75, [''voltage''], [''core_count''], []) \<and>
   calculate_match_score \<lparr>weights = ATTRIBUTE_WEIGHTS\<rparr>
     sample_attributes (sample_attributes\<lparr>core_count := Some 4\<rparr>)
       = Inr (85, [''voltage'', ''conductor_material'', ''cross_section'', ''insulation'',
                   ''armouring'', ''sheathing''], [''core_count''], [])"
proof -
  let ?e = "\<lparr>weights = [(''voltage'', 3 / 4), (''core_count'', 1 / 4)]\<rparr>"
  note t = core_count_equality_only[of 3 4 "PyInt 3" "PyInt 4" ?e "1 / 4" sample_attributes]
  have h: "distinct (map fst (weights ?e)) \<and> (''core_count'', 1 / 4) \<in> set (weights ?e) \<and>
      core_count sample_attributes = Some 3 \<and> (3 :: int) \<noteq> 4"
    by (simp add: sample_attributes_def)
  have f1: "filter (\<lambda>n. n \<noteq> ''core_count'' \<and> map_of (to_normalized_dict sample_attributes) n \<noteq> None)
      (map fst (weights ?e)) = [''voltage'']"
    by (simp add: map_of_to_normalized_dict sample_attributes_def)
  have f2: "filter (\<lambda>n. n \<noteq> ''core_count'' \<and> map_of (to_normalized_dict sample_attributes) n \<noteq> None)
      (map fst ATTRIBUTE_WEIGHTS) = [''voltage'', ''conductor_material'', ''cross_section'',
        ''insulation'', ''armouring'', ''sheathing'']"
    by (simp add: map_of_to_normalized_dict sample_attributes_def ATTRIBUTE_WEIGHTS_def)
  have r: "round2 ((sum_list (map snd (weights ?e)) - 1 / 4) * 100) = 75"
    using round2_hundredths[of 7500] by simp
  have a: "compare_attribute ''core_count'' (PyInt 3) (PyInt 4) = Inr 0"
    using t by simp
  from t h have "calculate_match_score ?e sample_attributes (sample_attributes\<lparr>core_count := Some 4\<rparr>) =
        Inr (round2 ((sum_list (map snd (weights ?e)) - 1 / 4) * 100),
             filter (\<lambda>n. n \<noteq> ''core_count'' \<and> map_of (to_normalized_dict sample_attributes) n \<noteq> None)
               (map fst (weights ?e)),
             [''core_count''], [])"
    by blast
  then have b: "calculate_match_score ?e sample_attributes (sample_attributes\<lparr>core_count := Some 4\<rparr>)
      = Inr (75, [''voltage''], [''core_count''], [])"
    by (simp only: f1 r)
  from t h have "calculate_match_score \<lparr>weights = ATTRIBUTE_WEIGHTS\<rparr>
     sample_attributes (sample_attributes\<lparr>core_count := Some 4\<rparr>) =
        Inr (85,
             filter (\<lambda>n. n \<noteq> ''core_count'' \<and> map_of (to_normalized_dict sample_attributes) n \<noteq> None)
               (map fst ATTRIBUTE_WEIGHTS),
             [''core_count''], [])"
    by blast
  then have c: "calculate_match_score \<lparr>weights = ATTRIBUTE_WEIGHTS\<rparr>
     sample_attributes (sample_attributes\<lparr>core_count := Some 4\<rparr>)
       = Inr (85, [''voltage'', ''conductor_material'', ''cross_section'', ''insulation'',
                   ''armouring'', ''sheathing''], [''core_count''], [])"
    by (simp only: f2)
  from a b c show ?thesis by blast
qed

text \<open>
  The claim as stated fails, even for weights that sum to exactly 1, since the score is
  rounded to two decimals: with the weights 0.9921875 and 0.0078125 a mismatch of
  \<open>core_count\<close> alone scores 99.22, not 99.21875.
\<close>

theorem core_count_mismatch_counterexample:
  "init (Some [(''voltage'', 127 / 128), (''core_count'', 1 / 128)])
     = Inr \<lparr>weights = [(''voltage'', 127 / 128), (''core_count'', 1 / 128)]\<rparr> \<and>
   calculate_match_score \<lparr>weights = [(''voltage'', 127 / 128), (''core_count'', 1 / 128)]\<rparr>
     sample_attributes (sample_attributes\<lparr>core_count := Some 4\<rparr>)
       = Inr (9922 / 100, [''voltage''], [''core_count''], []) \<and>
   (9922 / 100 :: rat) \<noteq> 100 - 1 / 128 * 100"
  by code_simp

lemma normalize_pyval_idem:
  "normalize_pyval (normalize_pyval v n) n' = normalize_pyval v n"
  by (cases v) (simp_all add: normalize_pyval_def normalize_value_idem)

lemma normalize_value_type_irrelevant: "normalize_value v t = normalize_value v t'"
  by (simp add: normalize_value_def)

lemma compare_attribute_normalized:
  "compare_attribute n (normalize_pyval a n) (normalize_pyval b n) = compare_attribute n a b"
  by (simp add: compare_attribute_def normalize_pyval_idem)

text \<open>
  Claim C10. Normalizing a value twice gives what normalizing it once gives, whatever the
  value types passed; every value of the synonym table is left unchanged by
  \<open>normalize_value\<close>; hence comparing two values that were normalized beforehand gives
  the credit that comparing the original values gives.
\<close>

theorem normalize_value_idempotent:
  "normalize_value (normalize_value v t) t' = normalize_value v t \<and>
   (\<forall>entry \<in> set NORMALIZED_VALUES. normalize_value (snd entry) t = snd entry) \<and>
   compare_attribute n (PyStr (normalize_value x n)) (PyStr (normalize_value y n))
     = compare_attribute n (PyStr x) (PyStr y) \<and>
   compare_attribute n (normalize_pyval a n) (normalize_pyval b n) = compare_attribute n a b"
proof -
  have fixed: "normalize_value (snd entry) t = snd entry" if "entry \<in> set NORMALIZED_VALUES"
    for entry
  proof -
    have "snd entry \<in> {''al'', ''cu'', ''xlpe'', ''pvc'', ''epr'', ''gi_strip'', ''gi_wire'',
        ''swa'', ''unarmoured'', ''pe'', ''lszh''}"
      using that by (auto simp: NORMALIZED_VALUES_def)
    then show ?thesis by (rule table_fixed)
  qed
  have str: "compare_attribute n (PyStr (normalize_value x n)) (PyStr (normalize_value y n))
     = compare_attribute n (PyStr x) (PyStr y)"
    using compare_attribute_normalized[of n "PyStr x" "PyStr y"]
    by (simp add: normalize_pyval_def)
  show ?thesis
    using fixed str by (simp add: normalize_value_idem compare_attribute_normalized)
qed

theorem normalize_value_idempotent_witness:
  "normalize_value (normalize_value '' Aluminium '' ''conductor_material'') ''conductor_material''
     = normalize_value '' Aluminium '' ''conductor_material'' \<and>
   normalize_value '' Aluminium '' ''conductor_material'' = ''al'' \<and>
   normalize_value (snd (''galvanized iron strip'', ''gi_strip'')) ''conductor_material''
     = snd (''galvanized iron strip'', ''gi_strip'')"
proof -
  have mem: "(''galvanized iron strip'', ''gi_strip'') \<in> set NORMALIZED_VALUES"
    by (simp add: NORMALIZED_VALUES_def)
  have al: "normalize_value '' Aluminium '' ''conductor_material'' = ''al''"
    by code_simp
  show ?thesis
    using normalize_value_idempotent[of "'' Aluminium ''" "''conductor_material''"
            "''conductor_material''" "''armouring''"] mem al
    by blast
qed










lemma dict_set_keys:
  "map fst (dict_set d k v) = (if k \<in> set (map fst d) then map fst d else map fst d @ [k])"
  by (induction d) auto

lemma dict_set_distinct:
  "distinct (map fst d) \<Longrightarrow> distinct (map fst (dict_set d k v))"
  by (simp add: dict_set_keys)

lemma map_of_dict_set: "map_of (dict_set d k v) = (map_of d)(k \<mapsto> v)"
  by (induction d) (auto simp: fun_eq_iff)

lemma count_words_distinct:
  "distinct (map fst d) \<Longrightarrow>
     distinct (map fst (foldl (\<lambda>tf word. dict_set tf word (dict_get tf word 0 + 1)) d ws))"
  by (induction ws arbitrary: d) (simp_all add: dict_set_distinct)

lemma dict_set_key_set: "fst ` set (dict_set d k v) = insert k (fst ` set d)"
  by (induction d) auto

lemma count_words_keys:
  "fst ` set (foldl (\<lambda>tf word. dict_set tf word (dict_get tf word 0 + 1)) d ws)
     = fst ` set d \<union> set ws"
  by (induction ws arbitrary: d) (simp_all add: dict_set_key_set)

lemma count_words_positive:
  fixes d :: "('k \<times> nat) list"
  shows "\<forall>p \<in> set d. 0 < snd p \<Longrightarrow>
     \<forall>p \<in> set (foldl (\<lambda>tf word. dict_set tf word (dict_get tf word 0 + 1)) d ws). 0 < snd p"
proof (induction ws arbitrary: d)
  case Nil
  then show ?case by simp
next
  case (Cons w ws)
  have step: "\<forall>p \<in> set (dict_set d w n). 0 < snd p" if "0 < n" for n :: nat
    using Cons.prems that by (induction d) auto
  show ?case
    using Cons.IH[OF step[of "dict_get d w 0 + 1"]] by simp
qed

lemma term_counts_distinct: "distinct (map fst (term_counts ws))"
  unfolding term_counts_def by (rule count_words_distinct) simp

lemma term_counts_keys: "fst ` set (term_counts ws) = set ws"
  unfolding term_counts_def count_words_keys by simp

lemma term_counts_positive: "\<forall>p \<in> set (term_counts ws). 0 < snd p"
  unfolding term_counts_def by (rule count_words_positive) simp

lemma max_tf_positive:
  "0 < (if term_counts ws \<noteq> [] then Max (set (map snd (term_counts ws))) else 1)"
proof (cases "term_counts ws = []")
  case True
  then show ?thesis by simp
next
  case False
  then obtain p where p: "p \<in> set (term_counts ws)" by (cases "term_counts ws") auto
  then have "0 < snd p" using term_counts_positive by blast
  moreover have "snd p \<le> Max (set (map snd (term_counts ws)))"
    using p by (intro Max_ge) auto
  ultimately show ?thesis using False by simp
qed

lemma normalize_counts_eq:
  "0 < m \<Longrightarrow> normalize_counts m tf = Inr (map (\<lambda>(w, c). (w, real c / real m)) tf)"
  by (induction tf) (auto simp: truediv_def ebind_def)

lemma count_document_distinct:
  "distinct (map fst d) \<Longrightarrow> distinct (map fst (count_document rt d text))"
  unfolding count_document_def Let_def by (rule count_words_distinct)

lemma document_frequencies_distinct: "distinct (map fst (document_frequencies rt texts))"
proof -
  have "distinct (map fst d) \<Longrightarrow> distinct (map fst (foldl (count_document rt) d texts))" for d
    by (induction texts arbitrary: d) (simp_all add: count_document_distinct)
  then show ?thesis unfolding document_frequencies_def by simp
qed

lemma distinct_keys_sort_key:
  "distinct (map fst xs) \<Longrightarrow> distinct (map fst (sort_key f xs))"
  by (simp add: distinct_map)

lemma top_words_distinct:
  "distinct (map fst xs) \<Longrightarrow> distinct (map fst (top_words d xs))"
proof -
  assume "distinct (map fst xs)"
  then have "distinct (take d (map fst (sort_key (\<lambda>x. - int (snd x)) xs)))"
    by (intro distinct_take distinct_keys_sort_key)
  then show ?thesis by (simp add: top_words_def take_map)
qed

lemma top_words_length: "length (top_words d xs) \<le> d"
  by (simp add: top_words_def)

lemma map_of_zip_upt:
  assumes "map_of (zip ks [0..<length ks]) w = Some i"
  shows "i < length ks \<and> ks ! i = w"
proof -
  from assms have "(w, i) \<in> set (zip ks [0..<length ks])" by (rule map_of_SomeD)
  then obtain j where "j < length ks" "ks ! j = w" "[0..<length ks] ! j = i"
    by (auto simp: in_set_zip)
  then show ?thesis by simp
qed

lemma fit_fitted: "fitted (fit rt self texts)"
  by (simp add: fit_def Let_def)

lemma fit_dimension: "dimension (fit rt self texts) = dimension self"
  by (simp add: fit_def Let_def)

lemma fit_vocabulary_bound:
  "map_of (vocabulary (fit rt self texts)) w = Some i \<Longrightarrow> i < dimension self"
  using map_of_zip_upt[of "map fst (top_words (dimension self) (document_frequencies rt texts))" w i]
    top_words_length[of "dimension self" "document_frequencies rt texts"]
  by (simp add: fit_def Let_def)

lemma fit_vocabulary_inj:
  "map_of (vocabulary (fit rt self texts)) w = Some i \<Longrightarrow>
   map_of (vocabulary (fit rt self texts)) w' = Some i \<Longrightarrow> w = w'"
  using map_of_zip_upt[of "map fst (top_words (dimension self) (document_frequencies rt texts))" w i]
    map_of_zip_upt[of "map fst (top_words (dimension self) (document_frequencies rt texts))" w' i]
  by (simp add: fit_def Let_def)

lemma build_vector_length:
  "(\<And>w i. map_of (vocabulary e) w = Some i \<Longrightarrow> i < length vec) \<Longrightarrow>
     \<exists>vec'. build_vector e items vec = Inr vec' \<and> length vec' = length vec"
proof (induction items arbitrary: vec)
  case Nil
  then show ?case by simp
next
  case (Cons item items)
  obtain w t where item: "item = (w, t)" by (cases item)
  show ?case
  proof (cases "map_of (vocabulary e) w")
    case None
    then show ?thesis using Cons by (simp add: item)
  next
    case (Some i)
    then have i: "i < length vec" using Cons.prems by blast
    have "\<exists>vec'. build_vector e items (vec[i := t * dict_get (idf e) w 0]) = Inr vec' \<and>
        length vec' = length (vec[i := t * dict_get (idf e) w 0])"
      by (rule Cons.IH) (use Cons.prems in simp)
    then show ?thesis using Some i by (simp add: item)
  qed
qed

lemma build_vector_untouched:
  "build_vector e items vec = Inr vec' \<Longrightarrow>
   (\<And>w t. (w, t) \<in> set items \<Longrightarrow> map_of (vocabulary e) w \<noteq> Some i) \<Longrightarrow>
     vec' ! i = vec ! i"
proof (induction items arbitrary: vec)
  case Nil
  then show ?case by simp
next
  case (Cons item items)
  obtain w t where item: "item = (w, t)" by (cases item)
  show ?case
  proof (cases "map_of (vocabulary e) w")
    case None
    then have "build_vector e items vec = Inr vec'" using Cons.prems(1) by (simp add: item)
    then show ?thesis using Cons.prems(2) by (intro Cons.IH) auto
  next
    case (Some j)
    have ji: "j \<noteq> i" using Cons.prems(2)[of w t] Some by (auto simp: item)
    have run: "build_vector e items (vec[j := t * dict_get (idf e) w 0]) = Inr vec'"
      using Cons.prems(1) Some by (simp add: item split: if_splits)
    have "vec' ! i = (vec[j := t * dict_get (idf e) w 0]) ! i"
      using run Cons.prems(2) by (intro Cons.IH) auto
    then show ?thesis using ji by simp
  qed
qed

lemma build_vector_no_vocabulary_term:
  "\<forall>item \<in> set items. map_of (vocabulary e) (fst item) = None \<Longrightarrow>
     build_vector e items vec = Inr vec"
  by (induction items arbitrary: vec) auto

lemma build_vector_written:
  assumes run: "build_vector e items vec = Inr vec'"
    and inj: "\<And>w w' i. map_of (vocabulary e) w = Some i \<Longrightarrow>
                map_of (vocabulary e) w' = Some i \<Longrightarrow> w = w'"
    and dist: "distinct (map fst items)"
    and mem: "(w, t) \<in> set items" and idx: "map_of (vocabulary e) w = Some i"
  shows "vec' ! i = t * dict_get (idf e) w 0"
  using run dist mem
proof (induction items arbitrary: vec)
  case Nil
  then show ?case by simp
next
  case (Cons item items)
  obtain w0 t0 where item: "item = (w0, t0)" by (cases item)
  show ?case
  proof (cases "(w, t) = (w0, t0)")
    case True
    then have eq: "w0 = w" "t0 = t" by simp_all
    have i: "i < length vec"
      using Cons.prems(1) idx by (simp add: item eq split: if_splits)
    have run': "build_vector e items (vec[i := t * dict_get (idf e) w 0]) = Inr vec'"
      using Cons.prems(1) idx i by (simp add: item eq)
    have other: "map_of (vocabulary e) w' \<noteq> Some i" if "(w', t') \<in> set items" for w' t'
    proof
      assume "map_of (vocabulary e) w' = Some i"
      then have "w' = w" using inj idx by blast
      moreover have "w \<notin> fst ` set items" using Cons.prems(2) by (simp add: item eq)
      ultimately show False using that by force
    qed
    have "vec' ! i = (vec[i := t * dict_get (idf e) w 0]) ! i"
      using run' other by (rule build_vector_untouched)
    then show ?thesis using i by simp
  next
    case False
    then have mem': "(w, t) \<in> set items" using Cons.prems(3) by (auto simp: item)
    have dist': "distinct (map fst items)" using Cons.prems(2) by simp
    show ?thesis
    proof (cases "map_of (vocabulary e) w0")
      case None
      then have "build_vector e items vec = Inr vec'" using Cons.prems(1) by (simp add: item)
      then show ?thesis using dist' mem' by (rule Cons.IH)
    next
      case (Some j)
      then have "build_vector e items (vec[j := t0 * dict_get (idf e) w0 0]) = Inr vec'"
        using Cons.prems(1) by (simp add: item split: if_splits)
      then show ?thesis using dist' mem' by (rule Cons.IH)
    qed
  qed
qed

lemma l2_norm_zero: "l2_norm (replicate n 0) = 0"
  by (simp add: l2_norm_def sum_list_replicate)

lemma squares_nonneg: "0 \<le> sum_list (map (\<lambda>x. x * x) (v :: real list))"
  by (rule sum_list_nonneg) auto

lemma square_le_sum:
  "i < length v \<Longrightarrow> (v ! i) * (v ! i) \<le> sum_list (map (\<lambda>x. x * x) (v :: real list))"
proof (induction v arbitrary: i)
  case Nil
  then show ?case by simp
next
  case (Cons a v)
  show ?case
  proof (cases i)
    case 0
    then show ?thesis using squares_nonneg[of v] by simp
  next
    case (Suc j)
    then have "v ! j * v ! j \<le> sum_list (map (\<lambda>x. x * x) v)"
      using Cons by simp
    then show ?thesis using Suc by (simp add: add_increasing)
  qed
qed

lemma l2_norm_positive:
  assumes "i < length v" "v ! i \<noteq> 0"
  shows "0 < l2_norm v"
proof -
  have "0 < v ! i * v ! i" using assms(2) by (simp add: zero_less_mult_iff) (metis not_less_iff_gr_or_eq)
  then have "0 < sum_list (map (\<lambda>x. x * x) v)"
    using square_le_sum[OF assms(1)] by linarith
  then show ?thesis by (simp add: l2_norm_def)
qed

lemma l2_norm_null:
  assumes "\<not> 0 < l2_norm v"
  shows "v = replicate (length v) 0"
proof -
  have "l2_norm v = 0"
    using assms by (simp add: l2_norm_def not_less) (metis real_sqrt_ge_zero squares_nonneg antisym)
  then have "sum_list (map (\<lambda>x. x * x) v) = 0" by (simp add: l2_norm_def)
  then have "\<forall>x \<in> set v. x = 0"
    by (subst (asm) sum_list_nonneg_eq_0_iff) auto
  then show ?thesis by (simp add: list_eq_iff_nth_eq)
qed

lemma l2_norm_scaled:
  assumes "0 < l2_norm v"
  shows "l2_norm (map (\<lambda>x. x / l2_norm v) v) = 1"
proof -
  define n where "n = l2_norm v"
  have n: "0 < n" using assms by (simp add: n_def)
  have "sum_list (map (\<lambda>x. (x / n) * (x / n)) v) = sum_list (map (\<lambda>x. x * x) v) / (n * n)"
    by (induction v) (simp_all add: add_divide_distrib)
  moreover have "sum_list (map (\<lambda>x. x * x) v) = n * n"
    using squares_nonneg[of v] n by (simp add: n_def l2_norm_def)
  ultimately have one: "sum_list (map (\<lambda>x. (x / n) * (x / n)) v) = 1"
    using n by simp
  have "l2_norm (map (\<lambda>x. x / n) v) = sqrt (sum_list (map (\<lambda>x. (x / n) * (x / n)) v))"
    by (simp add: l2_norm_def comp_def)
  also have "\<dots> = 1" by (simp only: one real_sqrt_one)
  finally show ?thesis by (simp only: n_def)
qed

lemma relative_counts_keys: "fst ` set (relative_counts text) = set (tokenize text)"
proof -
  have "fst ` set (map (\<lambda>(w, c). (w, real c / real m)) tf) = fst ` set tf"
    for m :: nat and tf :: "(string \<times> nat) list"
    by force
  then show ?thesis
    by (simp add: relative_counts_def Let_def term_counts_keys del: set_map)
qed

lemma relative_counts_distinct: "distinct (map fst (relative_counts text))"
proof -
  have "map fst (map (\<lambda>(w, c). (w, real c / real m)) tf) = map fst tf"
    for m :: nat and tf :: "(string \<times> nat) list"
    by (induction tf) auto
  then show ?thesis
    by (simp add: relative_counts_def Let_def term_counts_distinct del: map_map)
qed

lemma relative_counts_positive:
  assumes "(w, t) \<in> set (relative_counts text)"
  shows "0 < t"
proof -
  define tf where "tf = term_counts (tokenize text)"
  define m where "m = (if tf \<noteq> [] then Max (set (map snd tf)) else 1)"
  have m: "0 < m" unfolding m_def tf_def by (rule max_tf_positive)
  from assms obtain c where c: "(w, c) \<in> set tf" "t = real c / real m"
    by (auto simp: relative_counts_def Let_def tf_def m_def)
  then have "0 < c" using term_counts_positive[of "tokenize text"] by (auto simp: tf_def)
  then show ?thesis using m c(2) by simp
qed

lemma embed_fitted:
  assumes "fitted e"
  shows "embed e text =
     ebind (build_vector e (relative_counts text) (replicate (dimension e) 0)) (\<lambda>vec.
       Inr (if l2_norm vec > 0 then map (\<lambda>x. x / l2_norm vec) vec else vec))"
proof -
  define tf where "tf = term_counts (tokenize text)"
  define m where "m = (if tf \<noteq> [] then Max (set (map snd tf)) else 1)"
  have m: "0 < m" unfolding m_def tf_def by (rule max_tf_positive)
  have nc: "normalize_counts m tf = Inr (relative_counts text)"
    using normalize_counts_eq[OF m, of tf]
    by (simp add: relative_counts_def Let_def tf_def m_def)
  have "embed e text =
     ebind (normalize_counts m tf) (\<lambda>tf.
       ebind (build_vector e tf (replicate (dimension e) 0)) (\<lambda>vec.
         Inr (if l2_norm vec > 0 then map (\<lambda>x. x / l2_norm vec) vec else vec)))"
    unfolding embed_def Let_def tf_def m_def using assms by (simp only: simp_thms if_False)
  then show ?thesis by (simp only: nc) (simp add: ebind_def)
qed

lemma embed_after_fit:
  "\<exists>v. embed (fit rt self texts) text = Inr v \<and> length v = dimension self \<and>
    ((\<forall>w \<in> set (tokenize text). map_of (vocabulary (fit rt self texts)) w = None) \<longrightarrow>
       v = replicate (dimension self) 0) \<and>
    ((\<exists>w \<in> set (tokenize text). map_of (vocabulary (fit rt self texts)) w \<noteq> None \<and>
         dict_get (idf (fit rt self texts)) w 0 \<noteq> 0) \<longrightarrow>
       l2_norm v = 1) \<and>
    (l2_norm v = 1 \<or> v = replicate (dimension self) 0)"
proof -
  define e where "e = fit rt self texts"
  define items where "items = relative_counts text"
  define zeros :: "real list" where "zeros = replicate (dimension self) 0"
  have dim: "dimension e = dimension self" by (simp add: e_def fit_dimension)
  have bound: "i < length zeros" if "map_of (vocabulary e) w = Some i" for w i
    using that fit_vocabulary_bound[of rt self texts w i] by (simp add: e_def zeros_def)
  obtain vec where vec: "build_vector e items zeros = Inr vec" "length vec = dimension self"
    using build_vector_length[of e zeros items] bound by (auto simp: zeros_def)
  define v where "v = (if l2_norm vec > 0 then map (\<lambda>x. x / l2_norm vec) vec else vec)"
  have res: "embed e text = Inr v"
    using embed_fitted[of e "text"] vec(1)
    by (simp add: e_def fit_fitted ebind_def items_def zeros_def v_def fit_dimension)
  have len: "length v = dimension self" by (simp add: v_def vec(2))
  have none: "v = replicate (dimension self) 0"
    if h: "\<forall>w \<in> set (tokenize text). map_of (vocabulary e) w = None"
  proof -
    have "\<forall>item \<in> set items. map_of (vocabulary e) (fst item) = None"
      using h relative_counts_keys[of "text"] by (auto simp: items_def)
    then have "build_vector e items zeros = Inr zeros"
      by (rule build_vector_no_vocabulary_term)
    then have "vec = zeros" using vec(1) by simp
    then show ?thesis by (simp add: v_def zeros_def l2_norm_zero)
  qed
  have some: "l2_norm v = 1"
    if h: "\<exists>w \<in> set (tokenize text). map_of (vocabulary e) w \<noteq> None \<and> dict_get (idf e) w 0 \<noteq> 0"
  proof -
    from h obtain w i where w: "w \<in> set (tokenize text)" "map_of (vocabulary e) w = Some i"
      "dict_get (idf e) w 0 \<noteq> 0" by auto
    then obtain t where t: "(w, t) \<in> set items"
      using relative_counts_keys[of "text"] by (force simp: items_def)
    have tpos: "0 < t" using t relative_counts_positive by (simp add: items_def)
    have inj: "w1 = w2" if "map_of (vocabulary e) w1 = Some j" "map_of (vocabulary e) w2 = Some j"
      for w1 w2 j
      using that fit_vocabulary_inj[of rt self texts w1 j w2] by (simp add: e_def)
    have "vec ! i = t * dict_get (idf e) w 0"
      using vec(1) inj relative_counts_distinct[of "text"] t w(2)
      by (intro build_vector_written[of e items zeros vec w t i]) (auto simp: items_def)
    then have "vec ! i \<noteq> 0" using tpos w(3) by simp
    moreover have "i < length vec" using bound[OF w(2)] vec(2) by (simp add: zeros_def)
    ultimately have "0 < l2_norm vec" by (intro l2_norm_positive[of i vec])
    then show ?thesis by (simp add: v_def l2_norm_scaled)
  qed
  have either: "l2_norm v = 1 \<or> v = replicate (dimension self) 0"
  proof (cases "0 < l2_norm vec")
    case True
    then show ?thesis by (simp add: v_def l2_norm_scaled)
  next
    case False
    then show ?thesis using l2_norm_null[OF False] by (simp add: v_def vec(2))
  qed
  show ?thesis
    unfolding e_def[symmetric] using res len none some either by blast
qed

lemma demo_frequencies:
  "document_frequencies sample_runtime [''cable'', ''copper'', ''aluminium cable'']
     = [(''cable'', 2), (''copper'', 1), (''aluminium'', 1)]"
  by code_simp

lemma demo_top_words:
  "top_words 384 [(''cable'', 2), (''copper'', 1), (''aluminium'', 1)]
     = [(''cable'', 2), (''copper'', 1), (''aluminium'', 1)]"
  by code_simp

lemma demo_vocabulary:
  "vocabulary demo_embedder = [(''cable'', 0), (''copper'', 1), (''aluminium'', 2)]"
proof -
  have "vocabulary demo_embedder =
      zip (map fst (top_words 384 (document_frequencies sample_runtime
             [''cable'', ''copper'', ''aluminium cable''])))
          [0..<length (top_words 384 (document_frequencies sample_runtime
             [''cable'', ''copper'', ''aluminium cable'']))]"
    by (simp add: demo_embedder_def fit_def Let_def SimpleEmbedder_init_def
          EMBEDDING_DIMENSION_def)
  also have "\<dots> = zip (map fst [(''cable'', 2 :: nat), (''copper'', 1), (''aluminium'', 1)])
      [0..<length [(''cable'', 2 :: nat), (''copper'', 1), (''aluminium'', 1)]]"
    by (simp only: demo_frequencies demo_top_words)
  also have "\<dots> = [(''cable'', 0), (''copper'', 1), (''aluminium'', 2)]"
    by code_simp
  finally show ?thesis .
qed

lemma demo_idf:
  "idf demo_embedder = [(''cable'', 0), (''copper'', ln (3 / 2)), (''aluminium'', ln (3 / 2))]"
proof -
  have "idf demo_embedder =
      map (\<lambda>(word, df). (word, ln (real (length [''cable'', ''copper'', ''aluminium cable''])
                                     / (real df + 1))))
        (document_frequencies sample_runtime [''cable'', ''copper'', ''aluminium cable''])"
    by (simp add: demo_embedder_def fit_def Let_def SimpleEmbedder_init_def)
  also have "\<dots> = map (\<lambda>(word, df). (word, ln (real (length [''cable'', ''copper'', ''aluminium cable''])
                                     / (real df + 1))))
        [(''cable'', 2), (''copper'', 1), (''aluminium'', 1)]"
    by (simp only: demo_frequencies)
  also have "\<dots> = [(''cable'', 0), (''copper'', ln (3 / 2)), (''aluminium'', ln (3 / 2))]"
    by simp
  finally show ?thesis .
qed

lemma demo_fitted: "fitted demo_embedder"
  by (simp add: demo_embedder_def fit_fitted)

lemma demo_dimension: "dimension demo_embedder = 384"
  by (simp add: demo_embedder_def fit_dimension SimpleEmbedder_init_def EMBEDDING_DIMENSION_def)

lemma counts_cable: "term_counts (tokenize ''cable'') = [(''cable'', 1)]"
  by code_simp

lemma counts_copper: "term_counts (tokenize ''copper'') = [(''copper'', 1)]"
  by code_simp

lemma counts_aluminium_cable:
  "term_counts (tokenize ''aluminium cable'') = [(''aluminium'', 1), (''cable'', 1)]"
  by code_simp

lemma counts_query: "term_counts (tokenize demo_query) = [(''copper'', 5), (''aluminium'', 12)]"
  by code_simp

lemma relative_cable: "relative_counts ''cable'' = [(''cable'', 1)]"
  by (simp add: relative_counts_def counts_cable)

lemma relative_copper: "relative_counts ''copper'' = [(''copper'', 1)]"
  by (simp add: relative_counts_def counts_copper)

lemma relative_aluminium_cable:
  "relative_counts ''aluminium cable'' = [(''aluminium'', 1), (''cable'', 1)]"
  by (simp add: relative_counts_def counts_aluminium_cable)

lemma relative_query: "relative_counts demo_query = [(''copper'', 5 / 12), (''aluminium'', 1)]"
  by (simp add: relative_counts_def counts_query)

text \<open>
  Claim C9. For an embedder fitted on any corpus, \<open>embed\<close> returns a vector of the
  embedder's dimension on every text (so no division by zero and no index error occurs);
  when no token of the text is in the vocabulary the vector is the zero vector; when some
  token is in the vocabulary with a non-zero inverse document frequency (its weight is then
  non-zero, its term frequency being positive) the vector has Euclidean norm 1. In every
  case the vector is either of norm 1 or the zero vector.
\<close>

theorem embed_normalization:
  "\<exists>v. embed (fit rt self texts) text = Inr v \<and> length v = dimension self \<and>
    ((\<forall>w \<in> set (tokenize text). map_of (vocabulary (fit rt self texts)) w = None) \<longrightarrow>
       v = replicate (dimension self) 0) \<and>
    ((\<exists>w \<in> set (tokenize text). map_of (vocabulary (fit rt self texts)) w \<noteq> None \<and>
         dict_get (idf (fit rt self texts)) w 0 \<noteq> 0) \<longrightarrow>
       l2_norm v = 1) \<and>
    (l2_norm v = 1 \<or> v = replicate (dimension self) 0)"
  by (rule embed_after_fit)

lemma tokens_copper: "tokenize ''copper'' = [''copper'']"
  by code_simp

lemma tokens_steel: "tokenize ''steel wire'' = [''steel'', ''wire'']"
  by code_simp

lemma ln_three_halves: "ln (3 / 2 :: real) \<noteq> 0"
  by simp

theorem embed_normalization_witness:
  "(\<exists>v. embed demo_embedder ''copper'' = Inr v \<and> length v = 384 \<and> l2_norm v = 1) \<and>
   embed demo_embedder ''steel wire'' = Inr (replicate 384 0)"
proof -
  let ?init = "SimpleEmbedder_init EMBEDDING_DIMENSION"
  let ?texts = "[''cable'', ''copper'', ''aluminium cable'']"
  have dim: "dimension ?init = 384"
    by (simp add: SimpleEmbedder_init_def EMBEDDING_DIMENSION_def)
  have hit: "\<exists>w \<in> set (tokenize ''copper'').
      map_of (vocabulary (fit sample_runtime ?init ?texts)) w \<noteq> None \<and>
      dict_get (idf (fit sample_runtime ?init ?texts)) w 0 \<noteq> 0"
    using ln_three_halves
    by (simp add: tokens_copper demo_vocabulary[unfolded demo_embedder_def]
          demo_idf[unfolded demo_embedder_def] dict_get_def)
  have miss: "\<forall>w \<in> set (tokenize ''steel wire'').
      map_of (vocabulary (fit sample_runtime ?init ?texts)) w = None"
    by (simp add: tokens_steel demo_vocabulary[unfolded demo_embedder_def])
  from embed_normalization[of sample_runtime ?init ?texts "''copper''"] hit
  have a: "\<exists>v. embed demo_embedder ''copper'' = Inr v \<and> length v = 384 \<and> l2_norm v = 1"
    unfolding demo_embedder_def dim by blast
  from embed_normalization[of sample_runtime ?init ?texts "''steel wire''"] miss
  have b: "embed demo_embedder ''steel wire'' = Inr (replicate 384 0)"
    unfolding demo_embedder_def dim by blast
  from a b show ?thesis by blast
qed

end
